theory Spec2Isabelle
  imports Main "HOL-Library.Word"
begin

unbundle bit_operations_syntax

section \<open>Bytes, error codes and outcomes\<close>

type_synonym byte = "8 word"

text \<open>
  The error codes of libgpg-error that \<^verbatim>\<open>g10/ecdh.c\<close> names or that reach it from
  libgcrypt. \<open>GPG_ERR_CODE n\<close> stands for any other code.
\<close>

datatype gpg_err_code =
    GPG_ERR_BAD_PUBKEY
  | GPG_ERR_BAD_MPI
  | GPG_ERR_BAD_KEY
  | GPG_ERR_ENOMEM
  | GPG_ERR_TOO_SHORT
  | GPG_ERR_CHECKSUM
  | GPG_ERR_CODE nat

text \<open>
  How a call can end without a result: it returns an error code, it returns \<^verbatim>\<open>NULL\<close>,
  an \<^verbatim>\<open>assert\<close> fails, \<^verbatim>\<open>log_bug\<close> stops the process, or the C code reads or writes
  memory it must not (undefined behaviour).
\<close>

datatype failure =
    Returned gpg_err_code
  | Returned_NULL
  | Assert_Failed
  | Log_Bug
  | Undefined_Behaviour

section \<open>Algorithm identifiers\<close>

text \<open>
  The OpenPGP and libgcrypt numbers of the algorithms (the two numberings agree on these).
  The header that declares them is not part of the sources at hand; the values are those of
  the specification's example blob \<^verbatim>\<open>03 01 08 07\<close> (SHA-256, AES-128) and of RFC 4880.
\<close>

abbreviation (input) DIGEST_ALGO_SHA256 :: nat where "DIGEST_ALGO_SHA256 \<equiv> 8"
abbreviation (input) DIGEST_ALGO_SHA384 :: nat where "DIGEST_ALGO_SHA384 \<equiv> 9"
abbreviation (input) DIGEST_ALGO_SHA512 :: nat where "DIGEST_ALGO_SHA512 \<equiv> 10"
abbreviation (input) CIPHER_ALGO_AES :: nat where "CIPHER_ALGO_AES \<equiv> 7"
abbreviation (input) CIPHER_ALGO_AES192 :: nat where "CIPHER_ALGO_AES192 \<equiv> 8"
abbreviation (input) CIPHER_ALGO_AES256 :: nat where "CIPHER_ALGO_AES256 \<equiv> 9"
abbreviation (input) GCRY_MD_SHA256 :: nat where "GCRY_MD_SHA256 \<equiv> 8"
abbreviation (input) GCRY_MD_SHA384 :: nat where "GCRY_MD_SHA384 \<equiv> 9"
abbreviation (input) GCRY_MD_SHA512 :: nat where "GCRY_MD_SHA512 \<equiv> 10"
abbreviation (input) GCRY_CIPHER_AES128 :: nat where "GCRY_CIPHER_AES128 \<equiv> 7"
abbreviation (input) GCRY_CIPHER_AES192 :: nat where "GCRY_CIPHER_AES192 \<equiv> 8"
abbreviation (input) GCRY_CIPHER_AES256 :: nat where "GCRY_CIPHER_AES256 \<equiv> 9"
abbreviation (input) PUBKEY_ALGO_ECDH :: nat where "PUBKEY_ALGO_ECDH \<equiv> 18"

section \<open>The environment of the core\<close>

text \<open>
  What \<^verbatim>\<open>g10/ecdh.c\<close> takes from outside and does not compute itself: the allocator, the
  contents of freshly allocated memory, the curve size reported for a key (an
  \<^verbatim>\<open>unsigned int\<close>), and the hash and AESWRAP cipher of libgcrypt. The cipher handle of the C code carries the algorithm and the
  key; here both are passed to every cipher call. A cipher call gets the size of its output
  buffer and the input octets and gives an error code or the octets it wrote.
\<close>

record env =
  xtrymalloc :: "nat \<Rightarrow> bool"
  heap_junk :: "nat \<Rightarrow> byte"
  pubkey_nbits :: "nat list \<Rightarrow> 32 word"
  gcry_md_open :: "nat \<Rightarrow> gpg_err_code option"
  gcry_md_digest :: "nat \<Rightarrow> byte list \<Rightarrow> byte list"
  gcry_cipher_open :: "nat \<Rightarrow> gpg_err_code option"
  gcry_cipher_setkey :: "nat \<Rightarrow> byte list \<Rightarrow> gpg_err_code option"
  gcry_cipher_encrypt :: "nat \<Rightarrow> byte list \<Rightarrow> nat \<Rightarrow> byte list \<Rightarrow> gpg_err_code + byte list"
  gcry_cipher_decrypt :: "nat \<Rightarrow> byte list \<Rightarrow> nat \<Rightarrow> byte list \<Rightarrow> gpg_err_code + byte list"

section \<open>Default KEK parameters\<close>

text \<open>The table \<^verbatim>\<open>kek_params_table\<close>: threshold \<^verbatim>\<open>qbits\<close> (an \<^verbatim>\<open>unsigned int\<close>), hash id, cipher id.\<close>

definition kek_params_table :: "(32 word \<times> nat \<times> nat) list" where
  "kek_params_table =
     [(256, DIGEST_ALGO_SHA256, CIPHER_ALGO_AES),
      (384, DIGEST_ALGO_SHA384, CIPHER_ALGO_AES256),
      (528, DIGEST_ALGO_SHA512, CIPHER_ALGO_AES256)]"

text \<open>
  The \<^verbatim>\<open>for\<close> loop of \<^verbatim>\<open>pk_ecdh_default_params\<close> from index \<open>i\<close> on: the index at which it
  breaks with the two bytes it stored, or \<open>None\<close> when it runs off the table.
\<close>

function kek_params_loop :: "32 word \<Rightarrow> nat \<Rightarrow> (nat \<times> byte \<times> byte) option" where
  "kek_params_loop qbits i =
     (if i < length kek_params_table then
        (if fst (kek_params_table ! i) \<ge> qbits \<or> i + 1 = length kek_params_table
         then Some (i, of_nat (fst (snd (kek_params_table ! i))),
                       of_nat (snd (snd (kek_params_table ! i))))
         else kek_params_loop qbits (i + 1))
      else None)"
  by pat_completeness auto
termination
  by (relation "measure (\<lambda>(qbits, i). length kek_params_table - i)") auto

declare kek_params_loop.simps [simp del]

definition pk_ecdh_default_params :: "env \<Rightarrow> 32 word \<Rightarrow> failure + byte list" where
  "pk_ecdh_default_params e qbits =
     (case kek_params_loop qbits 0 of
        None \<Rightarrow> Inl Assert_Failed
      | Some (i, hash_id, cipher_id) \<Rightarrow>
          (let kek_params = [3, 1, hash_id, cipher_id] in
           if \<not> xtrymalloc e (length kek_params) then Inl Returned_NULL
           else Inr kek_params))"

text \<open>
  The selection rule in the specification's words: the first row whose threshold is at least
  the caller's \<open>qbits\<close>, the last row when there is none.
\<close>

definition first_matching_row :: "32 word \<Rightarrow> 32 word \<times> nat \<times> nat" where
  "first_matching_row qbits =
     (case filter (\<lambda>row. fst row \<ge> qbits) kek_params_table of
        [] \<Rightarrow> last kek_params_table
      | row # _ \<Rightarrow> row)"

section \<open>Multi-precision integers\<close>

text \<open>
  A \<^verbatim>\<open>gcry_mpi_t\<close> is an unsigned integer of any size. libgcrypt is not part of the sources;
  its three calls used here are modelled after their documented behaviour in the format
  \<^verbatim>\<open>GCRYMPI_FMT_USG\<close>: the unsigned big-endian octets of the value with no leading zero octet.
\<close>

type_synonym mpi = nat

fun mpi_octets :: "mpi \<Rightarrow> byte list" where
  "mpi_octets a = (if a = 0 then [] else mpi_octets (a div 256) @ [of_nat (a mod 256)])"

declare mpi_octets.simps [simp del]

fun mpi_get_nbits :: "mpi \<Rightarrow> nat" where
  "mpi_get_nbits a = (if a = 0 then 0 else Suc (mpi_get_nbits (a div 2)))"

declare mpi_get_nbits.simps [simp del]

definition octets_value :: "byte list \<Rightarrow> mpi" where
  "octets_value bs = foldl (\<lambda>a b. a * 256 + unat b) 0 bs"

subsection \<open>Buffers\<close>

text \<open>
  A buffer is the list of its octets. Fresh memory holds whatever the environment left
  there. \<open>buf_write\<close> stores octets from an offset on and keeps the rest; the caller checks
  that they fit.
\<close>

definition fresh_buffer :: "env \<Rightarrow> nat \<Rightarrow> byte list" where
  "fresh_buffer e n = map (heap_junk e) [0..<n]"

definition buf_write :: "byte list \<Rightarrow> nat \<Rightarrow> byte list \<Rightarrow> byte list" where
  "buf_write buf off bs = take off buf @ bs @ drop (off + length bs) buf"

text \<open>\<^verbatim>\<open>memmove (buf+dst, buf+src, n)\<close>, \<^verbatim>\<open>memset (buf+off, c, n)\<close> and \<^verbatim>\<open>memcpy (buf+off, src, n)\<close>.\<close>

definition memmove_buf :: "byte list \<Rightarrow> nat \<Rightarrow> nat \<Rightarrow> nat \<Rightarrow> byte list" where
  "memmove_buf buf dst src n = buf_write buf dst (take n (drop src buf))"

definition memset_buf :: "byte list \<Rightarrow> nat \<Rightarrow> byte \<Rightarrow> nat \<Rightarrow> byte list" where
  "memset_buf buf off c n = buf_write buf off (replicate n c)"

definition memcpy_buf :: "byte list \<Rightarrow> nat \<Rightarrow> byte list \<Rightarrow> nat \<Rightarrow> byte list" where
  "memcpy_buf buf off src n = buf_write buf off (take n src)"

text \<open>
  \<^verbatim>\<open>gcry_mpi_print (GCRYMPI_FMT_USG, buf+off, buflen, &nwritten, a)\<close>: the error
  \<^verbatim>\<open>GPG_ERR_TOO_SHORT\<close> when the octets do not fit into \<open>buflen\<close>, else the buffer with the
  octets stored and their number.
\<close>

definition gcry_mpi_print :: "byte list \<Rightarrow> nat \<Rightarrow> nat \<Rightarrow> mpi \<Rightarrow> gpg_err_code + (byte list \<times> nat)" where
  "gcry_mpi_print buf off buflen a =
     (if length (mpi_octets a) > buflen then Inl GPG_ERR_TOO_SHORT
      else Inr (buf_write buf off (mpi_octets a), length (mpi_octets a)))"

text \<open>
  \<^verbatim>\<open>gcry_mpi_scan (&result, GCRYMPI_FMT_USG, buf+off, n, NULL)\<close>: the value of \<open>n\<close> octets.
  In this format it rejects no input; its one failure, libgcrypt running out of memory, is
  left out, so it always gives a value.
\<close>

definition gcry_mpi_scan :: "byte list \<Rightarrow> nat \<Rightarrow> nat \<Rightarrow> gpg_err_code + mpi" where
  "gcry_mpi_scan buf off n = Inr (octets_value (take n (drop off buf)))"

section \<open>Helpers of the repository that are not in the sources\<close>

text \<open>
  Modelled from the spec: \<^verbatim>\<open>iobuf_write_size_body_mpi\<close> (g10/build-packet.c is missing).
  The specification: "Encoded as size-body for MPI inputs means: one octet giving the length
  in octets of the value, followed by the value's big-endian octets with no leading zero."
  The temporary \<^verbatim>\<open>IOBUF\<close> is the list of the octets written so far. The specification names
  no failure of the helper, so the return code is always 0 (\<open>None\<close>); a length that does
  not fit into the one octet is cut to eight bits.
\<close>

definition iobuf_write_size_body_mpi :: "byte list \<Rightarrow> mpi \<Rightarrow> gpg_err_code option \<times> byte list" where
  "iobuf_write_size_body_mpi obuf a =
     (None, obuf @ [of_nat (length (mpi_octets a))] @ mpi_octets a)"

text \<open>
  Modelled from the spec: \<^verbatim>\<open>iobuf_put\<close>, \<^verbatim>\<open>iobuf_write\<close> and \<^verbatim>\<open>iobuf_temp_to_buffer\<close>
  (common/iobuf.c is missing). The first two append one octet and \<open>n\<close> octets; the third
  copies the octets written into "a scratch buffer with an upper bound of 256 octets" and
  gives their number, so at most \<open>buflen\<close> octets arrive.
\<close>

definition iobuf_put :: "byte list \<Rightarrow> nat \<Rightarrow> byte list" where
  "iobuf_put obuf c = obuf @ [of_nat c]"

definition iobuf_write :: "byte list \<Rightarrow> byte list \<Rightarrow> nat \<Rightarrow> byte list" where
  "iobuf_write obuf src n = obuf @ take n src"

definition iobuf_temp_to_buffer :: "byte list \<Rightarrow> nat \<Rightarrow> byte list" where
  "iobuf_temp_to_buffer obuf buflen = take buflen obuf"

text \<open>
  Modelled from the spec: \<^verbatim>\<open>gcry_md_get_algo_dlen\<close> and \<^verbatim>\<open>gcry_cipher_get_algo_keylen\<close>.
  The specification: "the minimum allowed digest is SHA-256 (32 octets)" and "key length of
  cipher_id (16 / 24 / 32)"; SHA-384 and SHA-512 give 48 and 64 octets. Any other algorithm
  gives 0, as libgcrypt does for one it does not know.
\<close>

definition gcry_md_get_algo_dlen :: "nat \<Rightarrow> nat" where
  "gcry_md_get_algo_dlen algo =
     (if algo = GCRY_MD_SHA256 then 32
      else if algo = GCRY_MD_SHA384 then 48
      else if algo = GCRY_MD_SHA512 then 64 else 0)"

definition gcry_cipher_get_algo_keylen :: "nat \<Rightarrow> nat" where
  "gcry_cipher_get_algo_keylen algo =
     (if algo = GCRY_CIPHER_AES128 then 16
      else if algo = GCRY_CIPHER_AES192 then 24
      else if algo = GCRY_CIPHER_AES256 then 32 else 0)"

section \<open>The stages of \<^verbatim>\<open>pk_ecdh_encrypt_with_shared_point\<close>\<close>

text \<open>
  The function is a sequence of five blocks. Each block is one definition here, over the
  values the block reads, giving the values it leaves for the next block.
\<close>

subsection \<open>Lines 117--139: the x component of the shared point\<close>

text \<open>
  \<^verbatim>\<open>nbits\<close> and \<^verbatim>\<open>secret_x_size\<close> are of type \<^verbatim>\<open>int\<close>. \<open>nbits\<close> is the 32-bit pattern of
  the variable, read as a signed number by \<open>sint\<close>; the sum \<^verbatim>\<open>nbits+7\<close> wraps around and the
  division by 8 rounds towards zero. Where the code compares \<^verbatim>\<open>secret_x_size\<close> with the
  \<^verbatim>\<open>size_t\<close> value \<^verbatim>\<open>nbytes\<close>, the \<^verbatim>\<open>int\<close> is converted to a 64-bit unsigned number.
\<close>

definition c_int_div :: "int \<Rightarrow> int \<Rightarrow> int" where
  "c_int_div a b =
     (if (a < 0) = (b < 0) then \<bar>a\<bar> div \<bar>b\<bar> else - (\<bar>a\<bar> div \<bar>b\<bar>))"

definition size_t_of_int :: "int \<Rightarrow> nat" where
  "size_t_of_int i = nat (i mod 2 ^ 64)"

text \<open>
  The buffer \<^verbatim>\<open>secret_x\<close> is as long as the public point \<^verbatim>\<open>pkey[1]\<close>. \<^verbatim>\<open>xmalloc_secure\<close> does
  not return on failure, so the allocation is taken to succeed. A negative \<^verbatim>\<open>secret_x_size\<close>
  that got past the assertion would make \<^verbatim>\<open>secret_x+secret_x_size\<close> point in front of the
  buffer. The result is the buffer and \<^verbatim>\<open>secret_x_size\<close>.
\<close>

definition extract_secret_x :: "env \<Rightarrow> 32 word \<Rightarrow> mpi list \<Rightarrow> mpi \<Rightarrow> failure + (byte list \<times> nat)" where
  "extract_secret_x e nbits pkey shared_mpi =
     (let nbytes = (mpi_get_nbits (pkey ! 1) + 7) div 8;
          secret_x = fresh_buffer e nbytes
      in case gcry_mpi_print secret_x 0 nbytes shared_mpi of
           Inl rc \<Rightarrow> Inl (Returned rc)
         | Inr (secret_x, nbytes) \<Rightarrow>
             (let secret_x_size = c_int_div (sint (nbits + 7)) 8 in
              if \<not> nbytes > size_t_of_int secret_x_size then Inl Assert_Failed
              else if secret_x_size < 0 then Inl Undefined_Behaviour
              else
                (let secret_x = memmove_buf secret_x 0 1 (nat secret_x_size);
                     secret_x = memset_buf secret_x (nat secret_x_size) 0
                                  (nbytes - nat secret_x_size)
                 in Inr (secret_x, nat secret_x_size))))"

subsection \<open>Lines 149--180: the KEK parameters of the key\<close>

text \<open>
  \<open>kdf_params\<close> is the content of the array \<^verbatim>\<open>kdf_params\<close> up to \<^verbatim>\<open>kdf_params_size\<close>. The
  conditions are evaluated left to right, so no octet is read unless there are four.
  The result is \<^verbatim>\<open>kdf_hash_algo\<close> and \<^verbatim>\<open>kdf_encr_algo\<close>.
\<close>

definition check_kek_params :: "byte list \<Rightarrow> failure + (nat \<times> nat)" where
  "check_kek_params kdf_params =
     (if length kdf_params \<noteq> 4 \<or> kdf_params ! 0 \<noteq> 3 \<or> kdf_params ! 1 \<noteq> 1
      then Inl (Returned GPG_ERR_BAD_PUBKEY)
      else
        (let kdf_hash_algo = unat (kdf_params ! 2);
             kdf_encr_algo = unat (kdf_params ! 3)
         in if kdf_hash_algo \<noteq> GCRY_MD_SHA256
               \<and> kdf_hash_algo \<noteq> GCRY_MD_SHA384
               \<and> kdf_hash_algo \<noteq> GCRY_MD_SHA512
            then Inl (Returned GPG_ERR_BAD_PUBKEY)
            else if kdf_encr_algo \<noteq> GCRY_CIPHER_AES128
               \<and> kdf_encr_algo \<noteq> GCRY_CIPHER_AES192
               \<and> kdf_encr_algo \<noteq> GCRY_CIPHER_AES256
            then Inl (Returned GPG_ERR_BAD_PUBKEY)
            else Inr (kdf_hash_algo, kdf_encr_algo)))"

definition read_kek_params :: "mpi list \<Rightarrow> failure + (nat \<times> nat)" where
  "read_kek_params pkey =
     (let obuf = [];
          (rc, obuf) = iobuf_write_size_body_mpi obuf (pkey ! 2);
          kdf_params = iobuf_temp_to_buffer obuf 256
      in check_kek_params kdf_params)"

subsection \<open>Lines 182--207: the KDF parameters\<close>

definition build_kdf_params :: "mpi list \<Rightarrow> byte list \<Rightarrow> failure + byte list" where
  "build_kdf_params pkey pk_fp =
     (let obuf = [];
          (rc, obuf) = iobuf_write_size_body_mpi obuf (pkey ! 0);
          obuf = iobuf_put obuf PUBKEY_ALGO_ECDH;
          (rc, obuf) = (case rc of
                          Some err \<Rightarrow> (Some err, obuf)
                        | None \<Rightarrow> iobuf_write_size_body_mpi obuf (pkey ! 2));
          obuf = iobuf_write obuf (map of_char ''Anonymous Sender    '') 20;
          obuf = iobuf_write obuf pk_fp 20;
          kdf_params = iobuf_temp_to_buffer obuf 256
      in case rc of
           Some err \<Rightarrow> Inl (Returned err)
         | None \<Rightarrow> Inr kdf_params)"

subsection \<open>Lines 209--239: the key-encryption key\<close>

text \<open>
  The digest is copied over \<^verbatim>\<open>secret_x\<close>; a digest longer than the buffer would be written
  past its end. The last \<^verbatim>\<open>memset\<close> is called as the source calls it: the fill value is
  \<^verbatim>\<open>old_size-secret_x_size\<close> and the count is 0. The result is the buffer and the new
  \<^verbatim>\<open>secret_x_size\<close>.
\<close>

definition derive_kek ::
  "env \<Rightarrow> nat \<Rightarrow> nat \<Rightarrow> byte list \<Rightarrow> nat \<Rightarrow> byte list \<Rightarrow> failure + (byte list \<times> nat)" where
  "derive_kek e kdf_hash_algo kdf_encr_algo secret_x secret_x_size kdf_params =
     (case gcry_md_open e kdf_hash_algo of
        Some rc \<Rightarrow> Inl Log_Bug
      | None \<Rightarrow>
          (let h = [0, 0, 0, 1];
               h = h @ take secret_x_size secret_x;
               h = h @ kdf_params;
               digest = gcry_md_digest e kdf_hash_algo h
           in if \<not> gcry_md_get_algo_dlen kdf_hash_algo \<ge> 32 then Inl Assert_Failed
              else if gcry_md_get_algo_dlen kdf_hash_algo > length secret_x
                then Inl Undefined_Behaviour
              else
                (let secret_x = memcpy_buf secret_x 0 digest (gcry_md_get_algo_dlen kdf_hash_algo);
                     old_size = secret_x_size
                 in if \<not> old_size \<ge> gcry_cipher_get_algo_keylen kdf_encr_algo
                    then Inl Assert_Failed
                    else
                      (let secret_x_size = gcry_cipher_get_algo_keylen kdf_encr_algo in
                       if \<not> secret_x_size \<le> gcry_md_get_algo_dlen kdf_hash_algo
                       then Inl Assert_Failed
                       else
                         (let secret_x =
                                memset_buf secret_x secret_x_size
                                  (of_nat (old_size - secret_x_size)) 0
                          in Inr (secret_x, secret_x_size))))))"

subsection \<open>Lines 241--379: AES key wrap of the data\<close>

text \<open>
  The encrypting branch. \<^verbatim>\<open>in\<close> is the offset \<^verbatim>\<open>1+data_buf_size+8\<close> into \<^verbatim>\<open>data_buf\<close>. The
  cipher writes at most the \<^verbatim>\<open>data_buf_size+8\<close> octets of its output buffer, from offset 1 on.
  \<^verbatim>\<open>data_buf[0]\<close> is one octet, so the sum stored there is cut to eight bits.
\<close>

definition aeswrap_encrypt :: "env \<Rightarrow> nat \<Rightarrow> byte list \<Rightarrow> byte list \<Rightarrow> nat \<Rightarrow> mpi \<Rightarrow> failure + mpi" where
  "aeswrap_encrypt e kdf_encr_algo key data_buf data_buf_size data =
     (let in_off = 1 + data_buf_size + 8 in
      case gcry_mpi_print data_buf in_off data_buf_size data of
        Inl rc \<Rightarrow> Inl (Returned rc)
      | Inr (data_buf, nbytes) \<Rightarrow>
          (case gcry_cipher_encrypt e kdf_encr_algo key (data_buf_size + 8)
                  (take data_buf_size (drop in_off data_buf)) of
             Inl rc \<Rightarrow> Inl (Returned rc)
           | Inr out \<Rightarrow>
               (let data_buf = buf_write data_buf 1 (take (data_buf_size + 8) out);
                    data_buf = memset_buf data_buf in_off 0 data_buf_size;
                    data_buf = data_buf[0 := of_nat (data_buf_size + 8)]
                in case gcry_mpi_scan data_buf 0 (1 + unat (data_buf ! 0)) of
                     Inl rc \<Rightarrow> Inl (Returned rc)
                   | Inr result \<Rightarrow> Inr result)))"

text \<open>
  The decrypting branch. The return code of \<^verbatim>\<open>gcry_mpi_print\<close> is not looked at there; had
  the call failed, \<^verbatim>\<open>nbytes\<close> would be read without a value. \<^verbatim>\<open>in\<close> is the offset
  \<^verbatim>\<open>data_buf_size\<close>, and \<^verbatim>\<open>data_buf_size\<close> becomes the length octet. A length octet under 8
  would make the count given to \<^verbatim>\<open>gcry_mpi_scan\<close> negative.
\<close>

definition aeswrap_decrypt :: "env \<Rightarrow> nat \<Rightarrow> byte list \<Rightarrow> byte list \<Rightarrow> nat \<Rightarrow> mpi \<Rightarrow> failure + mpi" where
  "aeswrap_decrypt e kdf_encr_algo key data_buf data_buf_size data =
     (case gcry_mpi_print data_buf 0 data_buf_size data of
        Inl rc \<Rightarrow> Inl Undefined_Behaviour
      | Inr (data_buf, nbytes) \<Rightarrow>
          (if nbytes \<noteq> data_buf_size \<or> int (unat (data_buf ! 0)) \<noteq> int data_buf_size - 1
           then Inl (Returned GPG_ERR_BAD_MPI)
           else
             (let in_off = data_buf_size;
                  data_buf_size = unat (data_buf ! 0)
              in case gcry_cipher_decrypt e kdf_encr_algo key data_buf_size
                        (take data_buf_size (drop 1 data_buf)) of
                   Inl rc \<Rightarrow> Inl (Returned rc)
                 | Inr out \<Rightarrow>
                     (let data_buf = buf_write data_buf in_off (take data_buf_size out) in
                      if data_buf_size < 8 then Inl Undefined_Behaviour
                      else
                        (let data_buf_size = data_buf_size - 8 in
                         case gcry_mpi_scan data_buf in_off data_buf_size of
                           Inl rc \<Rightarrow> Inl (Returned rc)
                         | Inr result \<Rightarrow> Inr result)))))"

text \<open>
  The block as a whole: the cipher is opened and keyed with the first \<^verbatim>\<open>secret_x_size\<close>
  octets of \<^verbatim>\<open>secret_x\<close>, the size of the data is asserted, \<^verbatim>\<open>data_buf\<close> is allocated, and
  one of the two branches runs.
\<close>

definition aeswrap_data :: "env \<Rightarrow> bool \<Rightarrow> nat \<Rightarrow> byte list \<Rightarrow> nat \<Rightarrow> mpi \<Rightarrow> failure + mpi" where
  "aeswrap_data e is_encrypt kdf_encr_algo secret_x secret_x_size data =
     (case gcry_cipher_open e kdf_encr_algo of
        Some rc \<Rightarrow> Inl (Returned rc)
      | None \<Rightarrow>
          (case gcry_cipher_setkey e kdf_encr_algo (take secret_x_size secret_x) of
             Some rc \<Rightarrow> Inl (Returned rc)
           | None \<Rightarrow>
               (let data_buf_size = (mpi_get_nbits data + 7) div 8 in
                if data_buf_size mod 8 \<noteq> (if is_encrypt then 0 else 1) then Inl Assert_Failed
                else if \<not> xtrymalloc e (1 + 2 * data_buf_size + 8)
                  then Inl (Returned GPG_ERR_ENOMEM)
                else
                  (let data_buf = fresh_buffer e (1 + 2 * data_buf_size + 8) in
                   if is_encrypt
                   then aeswrap_encrypt e kdf_encr_algo (take secret_x_size secret_x)
                          data_buf data_buf_size data
                   else aeswrap_decrypt e kdf_encr_algo (take secret_x_size secret_x)
                          data_buf data_buf_size data))))"

section \<open>The two entry points\<close>

text \<open>
  Lines 113--239 of \<^verbatim>\<open>pk_ecdh_encrypt_with_shared_point\<close>: everything before the key wrap.
  These lines read neither \<^verbatim>\<open>is_encrypt\<close> nor \<^verbatim>\<open>data\<close>. The \<^verbatim>\<open>unsigned int\<close> that
  \<^verbatim>\<open>pubkey_nbits\<close> returns is stored in the \<^verbatim>\<open>int\<close> \<^verbatim>\<open>nbits\<close> bit for bit. The lines leave the
  cipher id, the buffer \<^verbatim>\<open>secret_x\<close>, which now holds the key-encryption key, and
  \<^verbatim>\<open>secret_x_size\<close>.
\<close>

definition ecdh_kek :: "env \<Rightarrow> mpi \<Rightarrow> byte list \<Rightarrow> mpi list \<Rightarrow> failure + (nat \<times> byte list \<times> nat)" where
  "ecdh_kek e shared_mpi pk_fp pkey =
     (let nbits = pubkey_nbits e pkey in
      case extract_secret_x e nbits pkey shared_mpi of
        Inl f \<Rightarrow> Inl f
      | Inr (secret_x, secret_x_size) \<Rightarrow>
          (case read_kek_params pkey of
             Inl f \<Rightarrow> Inl f
           | Inr (kdf_hash_algo, kdf_encr_algo) \<Rightarrow>
               (case build_kdf_params pkey pk_fp of
                  Inl f \<Rightarrow> Inl f
                | Inr kdf_params \<Rightarrow>
                    (case derive_kek e kdf_hash_algo kdf_encr_algo secret_x secret_x_size
                            kdf_params of
                       Inl f \<Rightarrow> Inl f
                     | Inr (secret_x, secret_x_size) \<Rightarrow>
                         Inr (kdf_encr_algo, secret_x, secret_x_size)))))"

definition pk_ecdh_encrypt_with_shared_point ::
  "env \<Rightarrow> bool \<Rightarrow> mpi \<Rightarrow> byte list \<Rightarrow> mpi \<Rightarrow> mpi list \<Rightarrow> failure + mpi" where
  "pk_ecdh_encrypt_with_shared_point e is_encrypt shared_mpi pk_fp data pkey =
     (case ecdh_kek e shared_mpi pk_fp pkey of
        Inl f \<Rightarrow> Inl f
      | Inr (kdf_encr_algo, secret_x, secret_x_size) \<Rightarrow>
          aeswrap_data e is_encrypt kdf_encr_algo secret_x secret_x_size data)"

text \<open>\<^verbatim>\<open>pk_ecdh_decrypt\<close>; the argument \<^verbatim>\<open>data\<close> may be the null pointer (\<open>None\<close>).\<close>

definition pk_ecdh_decrypt ::
  "env \<Rightarrow> byte list \<Rightarrow> mpi option \<Rightarrow> mpi \<Rightarrow> mpi list \<Rightarrow> failure + mpi" where
  "pk_ecdh_decrypt e sk_fp data shared skey =
     (case data of
        None \<Rightarrow> Inl (Returned GPG_ERR_BAD_MPI)
      | Some d \<Rightarrow> pk_ecdh_encrypt_with_shared_point e False shared sk_fp d skey)"

section \<open>An environment and a key to run the model on\<close>

text \<open>
  The theorems below hold for every environment. To apply them to concrete inputs, this
  section fixes one environment: every allocation succeeds, fresh memory is filled with
  \<^verbatim>\<open>AA\<close>, the key is reported as a 256-bit curve, and the hash and the cipher are small
  stand-ins that keep the interface of the real ones and nothing else. The stand-in digest
  has the length of the algorithm's digest. The stand-in wrap puts the eight octets \<^verbatim>\<open>A6\<close>
  in front of the masked input, and the stand-in unwrap checks them and reports a mismatch as
  \<^verbatim>\<open>GPG_ERR_CHECKSUM\<close>, the code libgcrypt gives for a failed integrity check of AESWRAP.
  They are not SHA-2 and not AES.
\<close>

definition sample_digest :: "nat \<Rightarrow> byte list \<Rightarrow> byte list" where
  "sample_digest algo msg = replicate (gcry_md_get_algo_dlen algo) (fold (+) msg 0x5C)"

definition sample_mask :: "byte list \<Rightarrow> byte" where
  "sample_mask key = fold (+) key 0x3C"

definition sample_wrap :: "nat \<Rightarrow> byte list \<Rightarrow> nat \<Rightarrow> byte list \<Rightarrow> gpg_err_code + byte list" where
  "sample_wrap algo key outsize inp =
     (if length inp mod 8 = 0 \<and> 16 \<le> length inp \<and> length inp + 8 \<le> outsize
      then Inr (replicate 8 0xA6 @ map (\<lambda>b. b XOR sample_mask key) inp)
      else Inl (GPG_ERR_CODE 45))"

definition sample_unwrap :: "nat \<Rightarrow> byte list \<Rightarrow> nat \<Rightarrow> byte list \<Rightarrow> gpg_err_code + byte list" where
  "sample_unwrap algo key outsize inp =
     (if length inp mod 8 = 0 \<and> 24 \<le> length inp \<and> length inp \<le> outsize + 8
      then (if take 8 inp = replicate 8 0xA6
            then Inr (map (\<lambda>b. b XOR sample_mask key) (drop 8 inp))
            else Inl GPG_ERR_CHECKSUM)
      else Inl (GPG_ERR_CODE 45))"

definition sample_env :: env where
  "sample_env =
     \<lparr> xtrymalloc = (\<lambda>n. True),
       heap_junk = (\<lambda>i. 0xAA),
       pubkey_nbits = (\<lambda>pkey. 256),
       gcry_md_open = (\<lambda>algo. None),
       gcry_md_digest = sample_digest,
       gcry_cipher_open = (\<lambda>algo. None),
       gcry_cipher_setkey = (\<lambda>algo key. None),
       gcry_cipher_encrypt = sample_wrap,
       gcry_cipher_decrypt = sample_unwrap \<rparr>"

text \<open>
  A key on NIST P-256: the OID \<^verbatim>\<open>2A 86 48 CE 3D 03 01 07\<close>, the base point of the curve as
  public point \<^verbatim>\<open>04 || X || Y\<close>, and the KEK parameters \<^verbatim>\<open>01 08 07\<close>, which the size-body
  encoding turns into the blob \<^verbatim>\<open>03 01 08 07\<close>. The shared point is twice the base point.
  The fingerprint is 20 zero octets. The padded session key has 24 octets: the cipher id,
  15 more octets, and eight octets \<^verbatim>\<open>05\<close>.
\<close>

definition sample_pkey :: "mpi list" where
  "sample_pkey =
     [0x2A8648CE3D030107,
      0x046B17D1F2E12C4247F8BCE6E563A440F277037D812DEB33A0F4A13945D898C2964FE342E2FE1A7F9B8EE7EB4A7C0F9E162BCE33576B315ECECBB6406837BF51F5,
      0x010807]"

definition sample_shared :: mpi where
  "sample_shared =
     0x047CF27B188D034F7E8A52380304B51AC3C08969E277F21B35A60B48FC4766997807775510DB8ED040293D9AC69F7430DBBA7DADE63CE982299E04B79D227873D1"

definition sample_fp :: "byte list" where
  "sample_fp = replicate 20 0"

definition sample_data :: mpi where
  "sample_data = 0x07A1B2C3D4E5F60718293A4B5C6D7E8F0505050505050505"

text \<open>
  Inputs for the unwrap direction: the MPI that wrapping \<open>sample_data\<close> gives in the sample
  environment (length octet \<^verbatim>\<open>20\<close>, then 32 wrapped octets); the same with the lowest bit of
  its first wrapped octet flipped; the same with the length octet \<^verbatim>\<open>21\<close>; an MPI of 18 octets
  whose length octet is \<^verbatim>\<open>10\<close>; and an MPI of 17 octets whose length octet is \<^verbatim>\<open>10\<close>, so
  that 16 octets follow. The last is a session key of 248 octets, for the wrap direction.
\<close>

definition sample_wrapped :: mpi where
  "sample_wrapped = 0x20A6A6A6A6A6A6A6A60BADBECFD8E9FA0B14253647506172830909090909090909"

definition sample_tampered :: mpi where
  "sample_tampered = 0x20A7A6A6A6A6A6A6A60BADBECFD8E9FA0B14253647506172830909090909090909"




definition sample_long_data :: mpi where
  "sample_long_data = 2 ^ 1983"

text \<open>
  The sample key with the four octets \<^verbatim>\<open>03 01 08 07\<close> as the value of its KEK-parameter MPI,
  and the KDF input that the specification prints for P-256, the KEK parameters
  \<^verbatim>\<open>03 01 08 07\<close> and a zero fingerprint, octet by octet as printed there.
\<close>

definition spec_pkey :: "mpi list" where
  "spec_pkey =
     [0x2A8648CE3D030107,
      0x046B17D1F2E12C4247F8BCE6E563A440F277037D812DEB33A0F4A13945D898C2964FE342E2FE1A7F9B8EE7EB4A7C0F9E162BCE33576B315ECECBB6406837BF51F5,
      0x03010807]"

definition spec_kdf_vector :: "byte list" where
  "spec_kdf_vector =
     [0x08, 0x2A, 0x86, 0x48, 0xCE, 0x3D, 0x03, 0x01, 0x07,
      0x12,
      0x04, 0x03, 0x01, 0x08, 0x07,
      0x41, 0x6E, 0x6F, 0x6E, 0x79, 0x6D, 0x6F, 0x75, 0x73, 0x20,
      0x53, 0x65, 0x6E, 0x64, 0x65, 0x72, 0x20, 0x20, 0x20, 0x20,
      0, 0, 0, 0, 0, 0, 0, 0, 0, 0, 0, 0, 0, 0, 0, 0, 0, 0, 0, 0]"

section \<open>Lemmas\<close>

subsection \<open>Facts about the octets of an MPI\<close>

lemma octets_value_snoc: "octets_value (bs @ [b]) = octets_value bs * 256 + unat b"
  by (simp add: octets_value_def)

lemma octets_value_mpi_octets: "octets_value (mpi_octets a) = a"
proof (induction a rule: mpi_octets.induct)
  case (1 a)
  show ?case
  proof (cases "a = 0")
    case True
    then show ?thesis by (simp add: mpi_octets.simps octets_value_def)
  next
    case False
    have "unat (of_nat (a mod 256) :: byte) = a mod 256"
      by (simp add: unat_of_nat)
    with False 1 show ?thesis
      by (subst mpi_octets.simps) (simp add: octets_value_snoc)
  qed
qed

lemma mpi_octets_bounds:
  "a < 256 ^ length (mpi_octets a) \<and> (a \<noteq> 0 \<longrightarrow> 256 ^ (length (mpi_octets a) - 1) \<le> a)"
proof (induction a rule: mpi_octets.induct)
  case (1 a)
  show ?case
  proof (cases "a = 0")
    case True
    then show ?thesis by (simp add: mpi_octets.simps)
  next
    case False
    let ?k = "length (mpi_octets (a div 256))"
    have len: "length (mpi_octets a) = Suc ?k"
      using False by (subst mpi_octets.simps) simp
    from 1 False have ih: "a div 256 < 256 ^ ?k"
      and ih2: "a div 256 \<noteq> 0 \<longrightarrow> 256 ^ (?k - 1) \<le> a div 256" by auto
    have up: "a < 256 ^ Suc ?k"
      using ih by (simp add: less_mult_imp_div_less mult.commute)
    have lo: "256 ^ ?k \<le> a"
    proof (cases "a div 256 = 0")
      case True
      then have "mpi_octets (a div 256) = []" by (simp add: mpi_octets.simps)
      then show ?thesis using False by simp
    next
      case nz: False
      then have "?k \<noteq> 0" by (subst mpi_octets.simps) simp
      then obtain j where j: "?k = Suc j" by (cases ?k) auto
      with ih2 nz have "256 ^ j \<le> a div 256" by simp
      then have "256 ^ j * 256 \<le> a div 256 * 256" by simp
      also have "\<dots> \<le> a" by simp
      finally show ?thesis using j by (simp add: mult.commute)
    qed
    show ?thesis using len up lo by simp
  qed
qed

lemma mpi_get_nbits_bounds:
  "a < 2 ^ mpi_get_nbits a \<and> (a \<noteq> 0 \<longrightarrow> 2 ^ (mpi_get_nbits a - 1) \<le> a)"
proof (induction a rule: mpi_get_nbits.induct)
  case (1 a)
  show ?case
  proof (cases "a = 0")
    case True
    then show ?thesis by (simp add: mpi_get_nbits.simps)
  next
    case False
    let ?k = "mpi_get_nbits (a div 2)"
    have len: "mpi_get_nbits a = Suc ?k"
      using False by (subst mpi_get_nbits.simps) simp
    from 1 False have ih: "a div 2 < 2 ^ ?k"
      and ih2: "a div 2 \<noteq> 0 \<longrightarrow> 2 ^ (?k - 1) \<le> a div 2" by auto
    have up: "a < 2 ^ Suc ?k"
      using ih by (simp add: less_mult_imp_div_less mult.commute)
    have lo: "2 ^ ?k \<le> a"
    proof (cases "a div 2 = 0")
      case True
      then have "mpi_get_nbits (a div 2) = 0" by (simp add: mpi_get_nbits.simps)
      then show ?thesis using False by simp
    next
      case nz: False
      then have "?k \<noteq> 0" by (subst mpi_get_nbits.simps) simp
      then obtain j where j: "?k = Suc j" by (cases ?k) auto
      with ih2 nz have "2 ^ j \<le> a div 2" by simp
      then have "2 ^ j * 2 \<le> a div 2 * 2" by simp
      also have "\<dots> \<le> a" by simp
      finally show ?thesis using j by (simp add: mult.commute)
    qed
    show ?thesis using len up lo by simp
  qed
qed

lemma nbits_unique:
  assumes "a < 2 ^ n" "a \<noteq> 0" "2 ^ (n - 1) \<le> a"
  shows "mpi_get_nbits a = n"
proof -
  let ?m = "mpi_get_nbits a"
  from mpi_get_nbits_bounds [of a] assms have m: "a < 2 ^ ?m" "2 ^ (?m - 1) \<le> a" by auto
  have "(2::nat) ^ (n - 1) < 2 ^ ?m" using assms m by linarith
  then have 1: "n - 1 < ?m" by (simp add: power_strict_increasing_iff)
  have "(2::nat) ^ (?m - 1) < 2 ^ n" using assms m by linarith
  then have 2: "?m - 1 < n" by (simp add: power_strict_increasing_iff)
  from 1 2 show ?thesis by linarith
qed

lemma pow256: "(256::nat) ^ j = 2 ^ (8 * j)"
proof -
  have "(256::nat) = 2 ^ 8" by simp
  then show ?thesis by (simp only: power_mult)
qed

lemma nbits_zero: "mpi_get_nbits 0 = 0"
  by (subst mpi_get_nbits.simps) simp

lemma octets_zero: "mpi_octets 0 = []"
  by (subst mpi_octets.simps) simp

lemma nbits_pos: "a \<noteq> 0 \<Longrightarrow> mpi_get_nbits a \<noteq> 0"
  by (subst mpi_get_nbits.simps) simp

lemma length_mpi_octets: "(mpi_get_nbits a + 7) div 8 = length (mpi_octets a)"
proof (cases "a = 0")
  case True
  then show ?thesis by (simp add: nbits_zero octets_zero)
next
  case False
  let ?m = "mpi_get_nbits a" and ?k = "length (mpi_octets a)"
  from mpi_get_nbits_bounds [of a] False have m: "a < 2 ^ ?m" "2 ^ (?m - 1) \<le> a" by auto
  from mpi_octets_bounds [of a] False have k: "a < 256 ^ ?k" "256 ^ (?k - 1) \<le> a" by auto
  have "(2::nat) ^ (?m - 1) < 256 ^ ?k" using m(2) k(1) by (rule le_less_trans)
  then have "(2::nat) ^ (?m - 1) < 2 ^ (8 * ?k)" by (simp only: pow256)
  then have 1: "?m - 1 < 8 * ?k" by (simp only: power_strict_increasing_iff)
  have "(256::nat) ^ (?k - 1) < 2 ^ ?m" using k(2) m(1) by (rule le_less_trans)
  then have "(2::nat) ^ (8 * (?k - 1)) < 2 ^ ?m" by (simp only: pow256)
  then have 2: "8 * (?k - 1) < ?m" by (simp only: power_strict_increasing_iff)
  have 3: "?m \<noteq> 0" using False by (rule nbits_pos)
  from 1 2 3 show ?thesis by arith
qed

lemma unat_byte_less: "unat (b::byte) < 256"
  using unsigned_less [of b, where ?'a = nat] by simp

lemma octets_value_Nil: "octets_value [] = 0"
  by (simp add: octets_value_def)

lemma octets_value_less: "octets_value bs < 256 ^ length bs"
proof (induction bs rule: rev_induct)
  case Nil
  show ?case by (simp add: octets_value_Nil)
next
  case (snoc b bs)
  have "unat b < 256" by (rule unat_byte_less)
  with snoc show ?case by (simp add: octets_value_snoc)
qed

lemma octets_value_append:
  "octets_value (as @ bs) = octets_value as * 256 ^ length bs + octets_value bs"
proof (induction bs rule: rev_induct)
  case Nil
  show ?case by (simp add: octets_value_Nil)
next
  case (snoc b bs)
  have "octets_value (as @ bs @ [b]) = octets_value ((as @ bs) @ [b])" by simp
  also have "\<dots> = octets_value (as @ bs) * 256 + unat b" by (rule octets_value_snoc)
  finally show ?case using snoc by (simp add: octets_value_snoc algebra_simps)
qed

lemma octets_value_Cons:
  "octets_value (b # bs) = unat b * 256 ^ length bs + octets_value bs"
  using octets_value_append [of "[b]" bs] octets_value_snoc [of "[]" b]
  by (simp add: octets_value_Nil)

lemma octets_value_nonzero: "b \<noteq> 0 \<Longrightarrow> octets_value (b # bs) \<noteq> 0"
  by (simp add: octets_value_Cons unat_0_iff)

lemma mpi_octets_step:
  assumes "v \<noteq> 0"
  shows "mpi_octets (v * 256 + unat (b::byte)) = mpi_octets v @ [b]"
proof -
  have lt: "unat b < 256" using unsigned_less [of b, where ?'a = nat] by simp
  have nz: "v * 256 + unat b \<noteq> 0" using assms by simp
  have d: "(v * 256 + unat b) div 256 = v" using lt by simp
  have m: "(v * 256 + unat b) mod 256 = unat b" using lt by simp
  have "mpi_octets (v * 256 + unat b) =
          mpi_octets ((v * 256 + unat b) div 256) @ [of_nat ((v * 256 + unat b) mod 256)]"
    using nz by (subst mpi_octets.simps) simp
  then show ?thesis by (simp only: d m) simp
qed

lemma mpi_octets_single: "b \<noteq> 0 \<Longrightarrow> mpi_octets (unat (b::byte)) = [b]"
proof -
  assume b: "b \<noteq> 0"
  have lt: "unat b < 256" using unsigned_less [of b, where ?'a = nat] by simp
  have nz: "unat b \<noteq> 0" using b by (simp add: unat_0_iff)
  show ?thesis
    using nz lt by (subst mpi_octets.simps) (simp add: octets_zero)
qed

lemma mpi_octets_octets_value:
  "b \<noteq> 0 \<Longrightarrow> mpi_octets (octets_value (b # bs)) = b # bs"
proof (induction bs rule: rev_induct)
  case Nil
  then show ?case
    using octets_value_snoc [of "[]" b] by (simp add: octets_value_Nil mpi_octets_single)
next
  case (snoc c bs)
  have "octets_value (b # bs @ [c]) = octets_value ((b # bs) @ [c])" by simp
  also have "\<dots> = octets_value (b # bs) * 256 + unat c" by (rule octets_value_snoc)
  finally have e: "octets_value (b # bs @ [c]) = octets_value (b # bs) * 256 + unat c" .
  have nz: "octets_value (b # bs) \<noteq> 0" using snoc.prems by (rule octets_value_nonzero)
  show ?case
    using snoc by (simp only: e mpi_octets_step [OF nz]) simp
qed


lemma nbits_octets:
  assumes "b \<noteq> 0"
  shows "mpi_get_nbits (octets_value (b # bs)) = 8 * length bs + mpi_get_nbits (unat b)"
proof -
  let ?k = "length bs" and ?nb = "mpi_get_nbits (unat b)"
  have ub: "unat b \<noteq> 0" using assms by (simp add: unat_0_iff)
  from mpi_get_nbits_bounds [of "unat b"] ub
  have hi: "unat b < 2 ^ ?nb" and lo: "2 ^ (?nb - 1) \<le> unat b" by auto
  have nb: "?nb \<noteq> 0" using ub by (rule nbits_pos)
  have v: "octets_value (b # bs) = unat b * 2 ^ (8 * ?k) + octets_value bs"
    by (simp only: octets_value_Cons pow256)
  have r: "octets_value bs < 2 ^ (8 * ?k)"
    using octets_value_less [of bs] by (simp only: pow256)
  have "unat b + 1 \<le> 2 ^ ?nb" using hi by simp
  then have "(unat b + 1) * 2 ^ (8 * ?k) \<le> 2 ^ ?nb * 2 ^ (8 * ?k)"
    by (rule mult_le_mono1)
  then have up: "octets_value (b # bs) < 2 ^ (8 * ?k + ?nb)"
    using r v by (simp add: power_add algebra_simps)
  have "2 ^ (?nb - 1) * 2 ^ (8 * ?k) \<le> unat b * 2 ^ (8 * ?k)"
    using lo by (rule mult_le_mono1)
  then have "2 ^ (8 * ?k + ?nb - 1) \<le> unat b * 2 ^ (8 * ?k)"
    using nb by (simp add: power_add [symmetric] algebra_simps)
  then have low: "2 ^ (8 * ?k + ?nb - 1) \<le> octets_value (b # bs)"
    using v by simp
  have nz: "octets_value (b # bs) \<noteq> 0" using assms by (rule octets_value_nonzero)
  show ?thesis using up nz low by (rule nbits_unique)
qed

subsection \<open>Facts about buffers and the shared-secret block\<close>

lemma length_fresh_buffer: "length (fresh_buffer e n) = n"
  by (simp add: fresh_buffer_def)

lemma buf_write_0: "buf_write buf 0 bs = bs @ drop (length bs) buf"
  by (simp add: buf_write_def)

lemma unat_nbits_plus_7:
  assumes "unat (nbits :: 32 word) \<le> 2147483640"
  shows "unat (nbits + 7) = unat nbits + 7"
proof -
  have "unat nbits + unat (7 :: 32 word) < 2 ^ LENGTH(32)" using assms by simp
  then have "unat (nbits + 7) = unat nbits + unat (7 :: 32 word)"
    by (rule unat_add_lem [THEN iffD1])
  then show ?thesis by simp
qed

lemma sint_small:
  assumes "unat (w :: 32 word) < 2147483648"
  shows "sint w = int (unat w)"
proof -
  have lo: "- (2 ^ 31) \<le> uint w"
  proof -
    have "- (2 ^ 31) \<le> (0::int)" by simp
    also have "0 \<le> uint w" by simp
    finally show ?thesis .
  qed
  have "int (unat w) < int 2147483648" using assms by (simp only: of_nat_less_iff)
  then have "uint w < int 2147483648" by (simp only: uint_nat)
  then have hi: "uint w < 2 ^ 31" by simp
  have "sint w = signed_take_bit (LENGTH(32) - Suc 0) (uint w)" by (rule sint_uint)
  also have "\<dots> = signed_take_bit 31 (uint w)" by simp
  also have "\<dots> = uint w" using lo hi by (rule signed_take_bit_int_eq_self)
  finally have "sint w = uint w" .
  then show ?thesis by (simp only: uint_nat)
qed

lemma sint_nbits_plus_7:
  assumes "unat (nbits :: 32 word) \<le> 2147483640"
  shows "sint (nbits + 7) = int (unat nbits + 7)"
proof -
  have "unat nbits + 7 < 2147483648" using assms by simp
  then have "unat (nbits + 7) < 2147483648"
    by (simp only: unat_nbits_plus_7 [OF assms])
  then have "sint (nbits + 7) = int (unat (nbits + 7))" by (rule sint_small)
  then show ?thesis by (simp only: unat_nbits_plus_7 [OF assms])
qed

lemma c_int_div_nat: "c_int_div (int x) 8 = int (x div 8)"
  by (simp add: c_int_div_def zdiv_int)

lemma size_t_of_int_nat: "x < 2 ^ 64 \<Longrightarrow> size_t_of_int (int x) = x"
  by (simp add: size_t_of_int_def)

lemma secret_x_size_value:
  assumes "unat (nbits :: 32 word) \<le> 2147483640"
  shows "c_int_div (sint (nbits + 7)) 8 = int ((unat nbits + 7) div 8)"
  by (simp only: sint_nbits_plus_7 [OF assms] c_int_div_nat)

lemma secret_x_size_size_t:
  assumes "unat (nbits :: 32 word) \<le> 2147483640"
  shows "size_t_of_int (int ((unat nbits + 7) div 8)) = (unat nbits + 7) div 8"
proof (rule size_t_of_int_nat)
  have "(unat nbits + 7) div 8 \<le> unat nbits + 7" by (rule div_le_dividend)
  also have "\<dots> < 2 ^ 64" using assms by simp
  finally show "(unat nbits + 7) div 8 < 2 ^ 64" .
qed

lemma extract_secret_x_too_short:
  assumes "length (mpi_octets (pkey ! 1)) < length (mpi_octets shared_mpi)"
  shows "extract_secret_x e nbits pkey shared_mpi = Inl (Returned GPG_ERR_TOO_SHORT)"
  using assms
  by (simp add: extract_secret_x_def gcry_mpi_print_def length_mpi_octets Let_def)

lemma extract_secret_x_print:
  assumes "length (mpi_octets shared_mpi) \<le> length (mpi_octets (pkey ! 1))"
  shows "gcry_mpi_print (fresh_buffer e (length (mpi_octets (pkey ! 1)))) 0
           (length (mpi_octets (pkey ! 1))) shared_mpi =
         Inr (mpi_octets shared_mpi
                @ drop (length (mpi_octets shared_mpi))
                    (fresh_buffer e (length (mpi_octets (pkey ! 1)))),
              length (mpi_octets shared_mpi))"
  using assms by (simp add: gcry_mpi_print_def buf_write_0)

lemma extract_secret_x_assert:
  assumes fits: "length (mpi_octets shared_mpi) \<le> length (mpi_octets (pkey ! 1))"
    and q: "unat nbits \<le> 2147483640"
    and less: "\<not> (unat nbits + 7) div 8 < length (mpi_octets shared_mpi)"
  shows "extract_secret_x e nbits pkey shared_mpi = Inl Assert_Failed"
  unfolding extract_secret_x_def Let_def length_mpi_octets extract_secret_x_print [OF fits]
  by (simp only: sum.case prod.case secret_x_size_value [OF q] secret_x_size_size_t [OF q]
      less not_not if_True simp_thms)

lemma extract_secret_x_ok:
  assumes fits: "length (mpi_octets shared_mpi) \<le> length (mpi_octets (pkey ! 1))"
    and q: "unat nbits \<le> 2147483640"
    and more: "(unat nbits + 7) div 8 < length (mpi_octets shared_mpi)"
  shows "extract_secret_x e nbits pkey shared_mpi =
           Inr (take ((unat nbits + 7) div 8) (drop 1 (mpi_octets shared_mpi))
                  @ replicate (length (mpi_octets shared_mpi) - (unat nbits + 7) div 8) 0
                  @ drop (length (mpi_octets shared_mpi))
                      (fresh_buffer e (length (mpi_octets (pkey ! 1)))),
                (unat nbits + 7) div 8)"
proof -
  let ?n = "(unat nbits + 7) div 8" and ?octs = "mpi_octets shared_mpi"
  let ?m = "length ?octs" and ?A = "length (mpi_octets (pkey ! 1))"
  let ?fresh = "fresh_buffer e ?A"
  let ?b1 = "?octs @ drop ?m ?fresh"
  have t: "take ?n (drop 1 ?b1) = take ?n (drop 1 ?octs)"
    using more by simp
  have mv: "memmove_buf ?b1 0 1 ?n = take ?n (drop 1 ?octs) @ drop ?n ?octs @ drop ?m ?fresh"
    using more by (simp add: memmove_buf_def buf_write_0 t del: drop_Suc)
  have ms: "memset_buf (take ?n (drop 1 ?octs) @ drop ?n ?octs @ drop ?m ?fresh) ?n 0 (?m - ?n)
            = take ?n (drop 1 ?octs) @ replicate (?m - ?n) 0 @ drop ?m ?fresh"
    using more by (simp add: memset_buf_def buf_write_def)
  have neg: "(int ?n < 0) = False" by simp
  show ?thesis
    unfolding extract_secret_x_def Let_def length_mpi_octets extract_secret_x_print [OF fits]
    by (simp only: sum.case prod.case secret_x_size_value [OF q] secret_x_size_size_t [OF q]
        more neg nat_int not_not if_True if_False mv ms simp_thms)
qed

subsection \<open>Facts about the table, the KEK block and the KEK-parameter check\<close>

lemma kek_params_loop_0:
  "kek_params_loop qbits 0 =
     (if qbits \<le> 256 then Some (0, 8, 7)
      else if qbits \<le> 384 then Some (1, 9, 9)
      else Some (2, 10, 9))"
proof -
  have 2: "kek_params_loop qbits (Suc (Suc 0)) = Some (2, 10, 9)"
    by (subst kek_params_loop.simps) (simp add: kek_params_table_def)
  have 1: "kek_params_loop qbits (Suc 0) = (if qbits \<le> 384 then Some (1, 9, 9) else Some (2, 10, 9))"
    by (subst kek_params_loop.simps) (simp add: kek_params_table_def 2)
  show ?thesis
    by (subst kek_params_loop.simps) (simp add: kek_params_table_def 1)
qed

lemma first_matching_row_eq:
  "first_matching_row qbits =
     (if qbits \<le> 256 then (256, 8, 7)
      else if qbits \<le> 384 then (384, 9, 9)
      else (528, 10, 9))"
proof -
  have "qbits \<le> 256 \<Longrightarrow> qbits \<le> 384" and "qbits \<le> 384 \<Longrightarrow> qbits \<le> 528"
    by (simp_all add: word_le_nat_alt)
  then show ?thesis
    by (auto simp add: first_matching_row_def kek_params_table_def)
qed

lemma memset_buf_0: "memset_buf buf off c 0 = buf"
  by (simp add: memset_buf_def buf_write_def)

lemma derive_kek_ok:
  assumes op: "gcry_md_open e h = None"
    and h: "h = 8 \<or> h = 9 \<or> h = 10"
    and c: "c = 7 \<or> c = 8 \<or> c = 9"
    and fit: "gcry_md_get_algo_dlen h \<le> length sx"
    and old: "gcry_cipher_get_algo_keylen c \<le> n"
    and dl: "length (gcry_md_digest e h ([0, 0, 0, 1] @ take n sx @ kdf)) = gcry_md_get_algo_dlen h"
  shows "derive_kek e h c sx n kdf =
           Inr (gcry_md_digest e h ([0, 0, 0, 1] @ take n sx @ kdf)
                  @ drop (gcry_md_get_algo_dlen h) sx,
                gcry_cipher_get_algo_keylen c)"
proof -
  have d32: "32 \<le> gcry_md_get_algo_dlen h"
    using h by (auto simp add: gcry_md_get_algo_dlen_def)
  have k32: "gcry_cipher_get_algo_keylen c \<le> 32"
    using c by (auto simp add: gcry_cipher_get_algo_keylen_def)
  have kd: "gcry_cipher_get_algo_keylen c \<le> gcry_md_get_algo_dlen h"
    using d32 k32 by simp
  show ?thesis
    using op d32 kd fit old dl
    by (simp add: derive_kek_def Let_def memset_buf_0 memcpy_buf_def buf_write_0)
qed

lemma check_kek_params_eq:
  "check_kek_params blob =
     (if length blob = 4 \<and> blob ! 0 = 3 \<and> blob ! 1 = 1
         \<and> unat (blob ! 2) \<in> {8, 9, 10} \<and> unat (blob ! 3) \<in> {7, 8, 9}
      then Inr (unat (blob ! 2), unat (blob ! 3))
      else Inl (Returned GPG_ERR_BAD_PUBKEY))"
  by (auto simp add: check_kek_params_def Let_def)

subsection \<open>Facts about the key-wrap block\<close>

lemma buf_write_append:
  "length xs = off \<Longrightarrow> length ys = length bs \<Longrightarrow> buf_write (xs @ ys @ zs) off bs = xs @ bs @ zs"
  by (simp add: buf_write_def)

lemma split_buffer3:
  assumes "length buf = a + b + c"
  obtains A B C where "buf = A @ B @ C" "length A = a" "length B = b" "length C = c"
proof
  show "buf = take a buf @ take b (drop a buf) @ drop (a + b) buf"
    by (metis append_take_drop_id drop_drop add.commute)
  show "length (take a buf) = a" using assms by simp
  show "length (take b (drop a buf)) = b" using assms by simp
  show "length (drop (a + b) buf) = c" using assms by simp
qed

lemma uint_eq_int: "(uint (b::byte) = int n) = (unat b = n)"
  by (simp only: uint_nat of_nat_eq_iff)

lemma aeswrap_encrypt_ok:
  assumes L: "L = length (mpi_octets data)"
    and enc: "gcry_cipher_encrypt e algo key (L + 8) (mpi_octets data) = Inr W"
    and lw: "length W = L + 8"
  shows "aeswrap_encrypt e algo key (fresh_buffer e (1 + 2 * L + 8)) L data =
           Inr (octets_value (of_nat (L + 8) # take ((L + 8) mod 256) W))"
proof -
  let ?octs = "mpi_octets data" and ?F = "fresh_buffer e (1 + 2 * L + 8)"
  let ?b = "of_nat (L + 8) :: byte"
  have "length ?F = 1 + (L + 8) + L" by (simp add: length_fresh_buffer)
  then obtain A B C where F: "?F = A @ B @ C"
    and lA: "length A = 1" and lB: "length B = L + 8" and lC: "length C = L"
    by (rule split_buffer3)
  from lA obtain a where A: "A = [a]" by (cases A) auto
  have Lo: "length ?octs = L" using L by simp
  have w1: "buf_write ?F (1 + L + 8) ?octs = A @ B @ ?octs"
    unfolding F
    using buf_write_append [of "A @ B" "1 + L + 8" C ?octs "[]"] lA lB lC Lo
    by simp
  have p: "gcry_mpi_print ?F (1 + L + 8) L data = Inr (A @ B @ ?octs, L)"
    by (simp only: gcry_mpi_print_def w1 Lo) simp
  have inp: "take L (drop (1 + L + 8) (A @ B @ ?octs)) = ?octs"
    using lA lB Lo by simp
  have w2: "buf_write (A @ B @ ?octs) 1 (take (L + 8) W) = A @ W @ ?octs"
    using buf_write_append [of A 1 B "take (L + 8) W" ?octs] lA lB lw by simp
  have w3: "memset_buf (A @ W @ ?octs) (1 + L + 8) 0 L = A @ W @ replicate L 0"
    using buf_write_append [of "A @ W" "1 + L + 8" ?octs "replicate L 0" "[]"] lA lw Lo
    by (simp add: memset_buf_def)
  have w4: "(A @ W @ replicate L 0)[0 := ?b] = ?b # W @ replicate L 0"
    by (simp add: A)
  have ub: "unat ?b = (L + 8) mod 256"
    by (simp only: unat_of_nat) simp
  have "(L + 8) mod 256 \<le> length W" using lw by simp
  then have tk: "take (1 + (L + 8) mod 256) (?b # W @ replicate L 0) = ?b # take ((L + 8) mod 256) W"
    by simp
  have sc: "gcry_mpi_scan (?b # W @ replicate L 0) 0 (1 + unat ((?b # W @ replicate L 0) ! 0))
            = Inr (octets_value (?b # take ((L + 8) mod 256) W))"
    by (simp only: gcry_mpi_scan_def nth_Cons_0 ub drop_0 tk)
  show ?thesis
    unfolding aeswrap_encrypt_def Let_def p
    by (simp only: sum.case prod.case inp enc w2 w3 w4 sc)
qed

lemma aeswrap_data_encrypt_ok:
  assumes op: "gcry_cipher_open e algo = None"
    and sk: "gcry_cipher_setkey e algo (take k sx) = None"
    and L: "L = length (mpi_octets data)"
    and L8: "L mod 8 = 0"
    and al: "xtrymalloc e (1 + 2 * L + 8)"
    and enc: "gcry_cipher_encrypt e algo (take k sx) (L + 8) (mpi_octets data) = Inr W"
    and lw: "length W = L + 8"
  shows "aeswrap_data e True algo sx k data =
           Inr (octets_value (of_nat (L + 8) # take ((L + 8) mod 256) W))"
  using op sk L8 al aeswrap_encrypt_ok [OF L enc lw]
  by (simp add: aeswrap_data_def Let_def length_mpi_octets L [symmetric])

lemma aeswrap_decrypt_start:
  assumes oct: "mpi_octets data = b # W"
  shows "gcry_mpi_print (fresh_buffer e (1 + 2 * Suc (length W) + 8)) 0 (Suc (length W)) data =
           Inr (b # W @ drop (Suc (length W)) (fresh_buffer e (1 + 2 * Suc (length W) + 8)),
                Suc (length W))"
  by (simp add: gcry_mpi_print_def oct buf_write_0)


lemma aeswrap_decrypt_error:
  assumes oct: "mpi_octets data = b # W"
    and len: "unat b = length W"
    and dec: "gcry_cipher_decrypt e algo key (length W) W = Inl rc"
  shows "aeswrap_decrypt e algo key (fresh_buffer e (1 + 2 * Suc (length W) + 8))
           (Suc (length W)) data = Inl (Returned rc)"
  unfolding aeswrap_decrypt_def aeswrap_decrypt_start [OF oct]
  using len dec by (simp add: Let_def uint_eq_int)

lemma aeswrap_decrypt_ok:
  assumes oct: "mpi_octets data = b # W"
    and len: "unat b = length W"
    and dec: "gcry_cipher_decrypt e algo key (length W) W = Inr P"
    and lp: "length P + 8 = length W"
  shows "aeswrap_decrypt e algo key (fresh_buffer e (1 + 2 * Suc (length W) + 8))
           (Suc (length W)) data = Inr (octets_value P)"
proof -
  let ?D = "Suc (length W)"
  let ?F = "fresh_buffer e (1 + 2 * ?D + 8)"
  let ?buf = "b # W @ drop ?D ?F"
  have tp: "take (length W) P = P" using lp by simp
  have "length ?buf = ?D + length P + (length ?buf - ?D - length P)"
    using lp by (simp add: length_fresh_buffer)
  then obtain A B C where buf: "?buf = A @ B @ C"
    and lA: "length A = ?D" and lB: "length B = length P"
    by (rule split_buffer3)
  have w: "buf_write ?buf ?D P = A @ P @ C"
    using buf_write_append [of A ?D B P C] lA lB by (simp only: buf)
  have tk: "take (length W - 8) (drop ?D (A @ P @ C)) = P"
    using lA lp by simp
  have sc: "gcry_mpi_scan (A @ P @ C) ?D (length W - 8) = Inr (octets_value P)"
    by (simp only: gcry_mpi_scan_def tk)
  have ge: "(length W < 8) = False" using lp by simp
  have b0: "?buf ! 0 = b" by simp
  have inp: "take (length W) (drop 1 ?buf) = W" by simp
  have c: "(?D \<noteq> ?D \<or> int (length W) \<noteq> int ?D - 1) = False" by simp
  show ?thesis
    unfolding aeswrap_decrypt_def aeswrap_decrypt_start [OF oct] Let_def
    by (simp only: sum.case prod.case b0 len c if_False inp dec tp w ge sc)
qed

subsection \<open>The sample key, octet by octet\<close>

lemma sample_shared_octets:
  "mpi_octets sample_shared =
     [0x04,
      0x7C, 0xF2, 0x7B, 0x18, 0x8D, 0x03, 0x4F, 0x7E, 0x8A, 0x52, 0x38, 0x03, 0x04, 0xB5, 0x1A, 0xC3,
      0xC0, 0x89, 0x69, 0xE2, 0x77, 0xF2, 0x1B, 0x35, 0xA6, 0x0B, 0x48, 0xFC, 0x47, 0x66, 0x99, 0x78,
      0x07, 0x77, 0x55, 0x10, 0xDB, 0x8E, 0xD0, 0x40, 0x29, 0x3D, 0x9A, 0xC6, 0x9F, 0x74, 0x30, 0xDB,
      0xBA, 0x7D, 0xAD, 0xE6, 0x3C, 0xE9, 0x82, 0x29, 0x9E, 0x04, 0xB7, 0x9D, 0x22, 0x78, 0x73, 0xD1]"
  by (simp add: sample_shared_def mpi_octets.simps)

lemma sample_point_length: "length (mpi_octets (sample_pkey ! 1)) = 65"
  by (simp add: sample_pkey_def mpi_octets.simps)

lemma sample_oid_octets:
  "mpi_octets (sample_pkey ! 0) = [0x2A, 0x86, 0x48, 0xCE, 0x3D, 0x03, 0x01, 0x07]"
  by (simp add: sample_pkey_def mpi_octets.simps)

lemma sample_kek_octets: "mpi_octets (sample_pkey ! 2) = [1, 8, 7]"
  by (simp add: sample_pkey_def mpi_octets.simps)

lemma sample_data_octets:
  "mpi_octets sample_data =
     [0x07, 0xA1, 0xB2, 0xC3, 0xD4, 0xE5, 0xF6, 0x07, 0x18, 0x29, 0x3A, 0x4B, 0x5C, 0x6D, 0x7E, 0x8F,
      0x05, 0x05, 0x05, 0x05, 0x05, 0x05, 0x05, 0x05]"
  by (simp add: sample_data_def mpi_octets.simps)

subsection \<open>The blocks on the sample key\<close>

lemma sample_env_simps:
  "xtrymalloc sample_env n = True"
  "heap_junk sample_env i = 0xAA"
  "pubkey_nbits sample_env pkey = 256"
  "gcry_md_open sample_env algo = None"
  "gcry_md_digest sample_env = sample_digest"
  "gcry_cipher_open sample_env algo = None"
  "gcry_cipher_setkey sample_env algo key = None"
  "gcry_cipher_encrypt sample_env = sample_wrap"
  "gcry_cipher_decrypt sample_env = sample_unwrap"
  by (simp_all add: sample_env_def)

lemma replicate_numeral: "replicate (numeral k) x = x # replicate (pred_numeral k) x"
  by (simp add: numeral_eq_Suc)

lemma sample_point_length_Suc: "length (mpi_octets (sample_pkey ! Suc 0)) = 65"
  using sample_point_length by simp

lemma sample_extract:
  "extract_secret_x sample_env 256 sample_pkey sample_shared =
     Inr (take 32 (drop 1 (mpi_octets sample_shared)) @ replicate 33 0, 32)"
proof -
  have m: "length (mpi_octets sample_shared) = 65"
    by (simp add: sample_shared_octets)
  have "extract_secret_x sample_env 256 sample_pkey sample_shared =
          Inr (take ((unat (256 :: 32 word) + 7) div 8) (drop 1 (mpi_octets sample_shared))
                 @ replicate (length (mpi_octets sample_shared)
                              - (unat (256 :: 32 word) + 7) div 8) 0
                 @ drop (length (mpi_octets sample_shared))
                     (fresh_buffer sample_env (length (mpi_octets (sample_pkey ! 1)))),
               (unat (256 :: 32 word) + 7) div 8)"
    by (rule extract_secret_x_ok) (simp_all add: m sample_point_length_Suc)
  then show ?thesis
    by (simp add: m sample_point_length_Suc length_fresh_buffer)
qed

text \<open>
  The largest \<^verbatim>\<open>unsigned int\<close> as curve size is \<open>-1\<close> as an \<^verbatim>\<open>int\<close>: \<^verbatim>\<open>secret_x_size\<close> is
  \<open>(-1 + 7) / 8 = 0\<close>, the assertion holds, nothing is moved and the whole buffer is set to
  zero.
\<close>

lemma extract_secret_x_wrapped_nbits:
  "extract_secret_x sample_env 4294967295 sample_pkey sample_shared = Inr (replicate 65 0, 0)"
proof -
  let ?octs = "mpi_octets sample_shared"
  let ?b = "?octs @ drop (length ?octs)
              (fresh_buffer sample_env (length (mpi_octets (sample_pkey ! 1))))"
  have m: "length ?octs = 65" by (simp add: sample_shared_octets)
  have fits: "length ?octs \<le> length (mpi_octets (sample_pkey ! 1))"
    by (simp add: m sample_point_length_Suc)
  have s: "c_int_div (sint ((4294967295 :: 32 word) + 7)) 8 = 0"
    by (simp add: c_int_div_def)
  have z: "size_t_of_int 0 = 0" by (simp add: size_t_of_int_def)
  have pos: "(0 < length ?octs) = True" by (simp add: m)
  have neg: "((0::int) < 0) = False" by simp
  have lb: "length ?b = 65" by (simp add: m sample_point_length_Suc length_fresh_buffer)
  have mv: "memmove_buf ?b 0 1 0 = ?b" by (simp add: memmove_buf_def buf_write_def)
  have ms: "memset_buf ?b 0 0 (length ?octs - 0) = replicate 65 0"
    using lb by (simp add: memset_buf_def buf_write_def m)
  show ?thesis
    unfolding extract_secret_x_def Let_def length_mpi_octets extract_secret_x_print [OF fits]
    by (simp only: sum.case prod.case s z pos neg nat_0 not_True_eq_False if_False mv ms)
qed

lemma sample_read_kek: "read_kek_params sample_pkey = Inr (8, 7)"
  by (simp add: read_kek_params_def iobuf_write_size_body_mpi_def iobuf_temp_to_buffer_def
      sample_kek_octets check_kek_params_eq)

lemma sample_kdf_params:
  "build_kdf_params sample_pkey sample_fp =
     Inr [0x08, 0x2A, 0x86, 0x48, 0xCE, 0x3D, 0x03, 0x01, 0x07,
          0x12,
          0x03, 0x01, 0x08, 0x07,
          0x41, 0x6E, 0x6F, 0x6E, 0x79, 0x6D, 0x6F, 0x75, 0x73, 0x20,
          0x53, 0x65, 0x6E, 0x64, 0x65, 0x72, 0x20, 0x20, 0x20, 0x20,
          0, 0, 0, 0, 0, 0, 0, 0, 0, 0, 0, 0, 0, 0, 0, 0, 0, 0, 0, 0]"
  by (simp add: build_kdf_params_def iobuf_write_size_body_mpi_def iobuf_put_def
      iobuf_write_def iobuf_temp_to_buffer_def sample_oid_octets sample_kek_octets
      sample_fp_def replicate_numeral)

lemma sample_derive:
  "derive_kek sample_env 8 7 (take 32 (drop 1 (mpi_octets sample_shared)) @ replicate 33 0) 32 kdf =
     Inr (sample_digest 8 ([0, 0, 0, 1] @ take 32 (drop 1 (mpi_octets sample_shared)) @ kdf)
            @ replicate 33 0, 16)"
proof -
  let ?sx = "take 32 (drop 1 (mpi_octets sample_shared)) @ replicate 33 0"
  have l: "length (take 32 (drop 1 (mpi_octets sample_shared))) = 32"
    by (simp add: sample_shared_octets)
  have t: "take 32 ?sx = take 32 (drop 1 (mpi_octets sample_shared))"
    using l by simp
  have d: "drop 32 ?sx = replicate 33 0"
    using l by simp
  have dl: "gcry_md_get_algo_dlen 8 = 32"
    by (simp add: gcry_md_get_algo_dlen_def)
  have kl: "gcry_cipher_get_algo_keylen 7 = 16"
    by (simp add: gcry_cipher_get_algo_keylen_def)
  have "derive_kek sample_env 8 7 ?sx 32 kdf =
          Inr (gcry_md_digest sample_env 8 ([0, 0, 0, 1] @ take 32 ?sx @ kdf)
                 @ drop (gcry_md_get_algo_dlen 8) ?sx,
               gcry_cipher_get_algo_keylen 7)"
    by (rule derive_kek_ok)
      (simp_all add: sample_env_simps sample_digest_def gcry_md_get_algo_dlen_def
        gcry_cipher_get_algo_keylen_def l)
  then show ?thesis
    by (simp only: t d dl kl sample_env_simps)
qed

subsection \<open>The key-encryption key of the sample key\<close>

lemma sample_digest_value:
  "sample_digest 8
       ([0, 0, 0, 1] @ take 32 (drop 1 (mpi_octets sample_shared)) @
        [0x08, 0x2A, 0x86, 0x48, 0xCE, 0x3D, 0x03, 0x01, 0x07,
         0x12,
         0x03, 0x01, 0x08, 0x07,
         0x41, 0x6E, 0x6F, 0x6E, 0x79, 0x6D, 0x6F, 0x75, 0x73, 0x20,
         0x53, 0x65, 0x6E, 0x64, 0x65, 0x72, 0x20, 0x20, 0x20, 0x20,
         0, 0, 0, 0, 0, 0, 0, 0, 0, 0, 0, 0, 0, 0, 0, 0, 0, 0, 0, 0])
     = replicate 32 0x6D"
  by (simp add: sample_digest_def gcry_md_get_algo_dlen_def sample_shared_octets)

lemma sample_ecdh_kek:
  "ecdh_kek sample_env sample_shared sample_fp sample_pkey =
     Inr (7, replicate 32 0x6D @ replicate 33 0, 16)"
  unfolding ecdh_kek_def Let_def
  by (simp only: sample_env_simps sample_extract sample_read_kek sample_kdf_params
      sample_derive sample_digest_value sum.case prod.case)

lemma aeswrap_data_decrypt_assert:
  assumes "gcry_cipher_open e algo = None"
    and "gcry_cipher_setkey e algo (take k sx) = None"
    and "length (mpi_octets data) mod 8 \<noteq> 1"
  shows "aeswrap_data e False algo sx k data = Inl Assert_Failed"
  using assms by (simp add: aeswrap_data_def Let_def length_mpi_octets)

lemma aeswrap_data_decrypt:
  assumes "gcry_cipher_open e algo = None"
    and "gcry_cipher_setkey e algo (take k sx) = None"
    and "mpi_octets data = b # W"
    and "length W mod 8 = 0"
    and "xtrymalloc e (1 + 2 * Suc (length W) + 8)"
  shows "aeswrap_data e False algo sx k data =
           aeswrap_decrypt e algo (take k sx) (fresh_buffer e (1 + 2 * Suc (length W) + 8))
             (Suc (length W)) data"
proof -
  have "Suc (length W) mod 8 = 1" using assms(4) by presburger
  then show ?thesis
    using assms by (simp add: aeswrap_data_def Let_def length_mpi_octets)
qed

subsection \<open>The wrapped key as an MPI\<close>

lemma full_from_kek:
  assumes "ecdh_kek e shared_mpi pk_fp pkey = Inr (algo, sx, k)"
  shows "pk_ecdh_encrypt_with_shared_point e is_encrypt shared_mpi pk_fp data pkey =
           aeswrap_data e is_encrypt algo sx k data"
  using assms by (simp add: pk_ecdh_encrypt_with_shared_point_def)

lemma of_nat_byte_nonzero: "0 < n \<Longrightarrow> n \<le> 255 \<Longrightarrow> (of_nat n :: byte) \<noteq> 0"
proof
  assume n: "0 < n" "n \<le> 255" and z: "(of_nat n :: byte) = 0"
  have "unat (of_nat n :: byte) = n" using n by (simp only: unat_of_nat) simp
  with z n show False by simp
qed

lemma unat_of_nat_byte: "n \<le> 255 \<Longrightarrow> unat (of_nat n :: byte) = n"
  by (simp only: unat_of_nat) simp

lemma nbits_byte_top: "n \<le> 255 \<Longrightarrow> (mpi_get_nbits n = 8) = (128 \<le> n)"
proof
  assume n: "n \<le> 255" and e: "mpi_get_nbits n = 8"
  show "128 \<le> n"
  proof (rule ccontr)
    assume "\<not> 128 \<le> n"
    then have lt: "n < 2 ^ 7" by simp
    show False
    proof (cases "n = 0")
      case True
      with e show False by (simp add: nbits_zero)
    next
      case False
      with mpi_get_nbits_bounds [of n] e have "2 ^ 7 \<le> n" by simp
      with lt show False by simp
    qed
  qed
next
  assume n: "n \<le> 255" and "128 \<le> n"
  then show "mpi_get_nbits n = 8"
    by (intro nbits_unique) simp_all
qed

subsection \<open>The wrap of the sample session key\<close>

lemma sample_mask_kek_list:
  "sample_mask [0x6D, 0x6D, 0x6D, 0x6D, 0x6D, 0x6D, 0x6D, 0x6D,
                0x6D, 0x6D, 0x6D, 0x6D, 0x6D, 0x6D, 0x6D, 0x6D] = 0x0C"
  by (simp add: sample_mask_def)

lemma sample_wrap_call:
  "gcry_cipher_encrypt sample_env 7 (take 16 (replicate 32 0x6D @ replicate 33 0)) (24 + 8)
       (mpi_octets sample_data) =
     Inr [0xA6, 0xA6, 0xA6, 0xA6, 0xA6, 0xA6, 0xA6, 0xA6,
          0x0B, 0xAD, 0xBE, 0xCF, 0xD8, 0xE9, 0xFA, 0x0B, 0x14, 0x25, 0x36, 0x47, 0x50, 0x61,
          0x72, 0x83, 0x09, 0x09, 0x09, 0x09, 0x09, 0x09, 0x09, 0x09]"
  by (simp add: sample_env_simps sample_wrap_def sample_mask_kek_list sample_data_octets
      replicate_numeral)

lemma sample_wrapped_value:
  "octets_value
     [0x20, 0xA6, 0xA6, 0xA6, 0xA6, 0xA6, 0xA6, 0xA6, 0xA6,
      0x0B, 0xAD, 0xBE, 0xCF, 0xD8, 0xE9, 0xFA, 0x0B, 0x14, 0x25, 0x36, 0x47, 0x50, 0x61,
      0x72, 0x83, 0x09, 0x09, 0x09, 0x09, 0x09, 0x09, 0x09, 0x09] = sample_wrapped"
  by (simp add: octets_value_def sample_wrapped_def)

lemma sample_wrapped_octets:
  "mpi_octets sample_wrapped =
     [0x20, 0xA6, 0xA6, 0xA6, 0xA6, 0xA6, 0xA6, 0xA6, 0xA6,
      0x0B, 0xAD, 0xBE, 0xCF, 0xD8, 0xE9, 0xFA, 0x0B, 0x14, 0x25, 0x36, 0x47, 0x50, 0x61,
      0x72, 0x83, 0x09, 0x09, 0x09, 0x09, 0x09, 0x09, 0x09, 0x09]"
  by (simp add: sample_wrapped_def mpi_octets.simps)

lemma sample_wrap_result:
  "pk_ecdh_encrypt_with_shared_point sample_env True sample_shared sample_fp sample_data
     sample_pkey = Inr sample_wrapped"
proof -
  have L: "24 = length (mpi_octets sample_data)" by (simp add: sample_data_octets)
  have "aeswrap_data sample_env True 7 (replicate 32 0x6D @ replicate 33 0) 16 sample_data =
          Inr (octets_value (of_nat (24 + 8) #
                 take ((24 + 8) mod 256)
                   [0xA6, 0xA6, 0xA6, 0xA6, 0xA6, 0xA6, 0xA6, 0xA6,
                    0x0B, 0xAD, 0xBE, 0xCF, 0xD8, 0xE9, 0xFA, 0x0B, 0x14, 0x25, 0x36, 0x47, 0x50,
                    0x61, 0x72, 0x83, 0x09, 0x09, 0x09, 0x09, 0x09, 0x09, 0x09, 0x09]))"
    by (rule aeswrap_data_encrypt_ok [OF _ _ L _ _ sample_wrap_call])
      (simp_all add: sample_env_simps)
  then show ?thesis
    by (simp add: full_from_kek [OF sample_ecdh_kek] sample_wrapped_value)
qed

lemma sample_wrapped_nbits: "mpi_get_nbits sample_wrapped = 262"
proof -
  have "mpi_get_nbits (unat (0x20 :: byte)) = 6"
    by (simp add: mpi_get_nbits.simps)
  then show ?thesis
    using nbits_octets [of "0x20" "tl (mpi_octets sample_wrapped)"]
    by (simp add: sample_wrapped_octets sample_wrapped_value)
qed

subsection \<open>The key-wrap block, decrypting\<close>

lemma decrypt_from_kek:
  assumes "ecdh_kek e shared sk_fp skey = Inr (algo, sx, k)"
  shows "pk_ecdh_decrypt e sk_fp (Some data) shared skey = aeswrap_data e False algo sx k data"
  using assms by (simp add: pk_ecdh_decrypt_def pk_ecdh_encrypt_with_shared_point_def)

lemma aeswrap_data_decrypt_ok:
  assumes op: "gcry_cipher_open e algo = None"
    and sk: "gcry_cipher_setkey e algo (take k sx) = None"
    and oct: "mpi_octets data = b # W"
    and len: "unat b = length W"
    and l8: "length W mod 8 = 0"
    and al: "xtrymalloc e (1 + 2 * Suc (length W) + 8)"
    and dec: "gcry_cipher_decrypt e algo (take k sx) (length W) W = Inr P"
    and lp: "length P + 8 = length W"
  shows "aeswrap_data e False algo sx k data = Inr (octets_value P)"
  by (simp only: aeswrap_data_decrypt [OF op sk oct l8 al] aeswrap_decrypt_ok [OF oct len dec lp])

lemma aeswrap_data_decrypt_error:
  assumes op: "gcry_cipher_open e algo = None"
    and sk: "gcry_cipher_setkey e algo (take k sx) = None"
    and oct: "mpi_octets data = b # W"
    and len: "unat b = length W"
    and l8: "length W mod 8 = 0"
    and al: "xtrymalloc e (1 + 2 * Suc (length W) + 8)"
    and dec: "gcry_cipher_decrypt e algo (take k sx) (length W) W = Inl rc"
  shows "aeswrap_data e False algo sx k data = Inl (Returned rc)"
  by (simp only: aeswrap_data_decrypt [OF op sk oct l8 al] aeswrap_decrypt_error [OF oct len dec])


subsection \<open>The unwrap of the sample inputs and a long session key\<close>

lemma sample_unwrap_call:
  "gcry_cipher_decrypt sample_env 7 (take 16 (replicate 32 0x6D @ replicate 33 0)) (24 + 8)
     [0xA6, 0xA6, 0xA6, 0xA6, 0xA6, 0xA6, 0xA6, 0xA6,
      0x0B, 0xAD, 0xBE, 0xCF, 0xD8, 0xE9, 0xFA, 0x0B, 0x14, 0x25, 0x36, 0x47, 0x50, 0x61,
      0x72, 0x83, 0x09, 0x09, 0x09, 0x09, 0x09, 0x09, 0x09, 0x09]
   = Inr (mpi_octets sample_data)"
  by (simp add: sample_env_simps sample_unwrap_def sample_mask_kek_list sample_data_octets
      replicate_numeral)

lemma sample_long_data_length: "length (mpi_octets sample_long_data) = 248"
proof -
  have "mpi_get_nbits sample_long_data = 1984"
    unfolding sample_long_data_def by (rule nbits_unique) simp_all
  then show ?thesis
    using length_mpi_octets [of sample_long_data] by simp
qed

lemma sample_wrap_long:
  assumes "length p = 248"
  shows "gcry_cipher_encrypt sample_env 7 key (248 + 8) p =
           Inr (replicate 8 0xA6 @ map (\<lambda>b. b XOR sample_mask key) p)"
  using assms by (simp add: sample_env_simps sample_wrap_def)

lemma sample_zero_unwrap:
  "pk_ecdh_encrypt_with_shared_point sample_env False sample_shared sample_fp 0 sample_pkey =
     Inl Assert_Failed"
  unfolding full_from_kek [OF sample_ecdh_kek]
  by (rule aeswrap_data_decrypt_assert) (simp_all add: sample_env_simps octets_zero)

subsection \<open>The key derivation does not use the cipher\<close>






subsection \<open>The sample inputs of the unwrap direction\<close>

lemma sample_tampered_octets:
  "mpi_octets sample_tampered =
     [0x20, 0xA7, 0xA6, 0xA6, 0xA6, 0xA6, 0xA6, 0xA6, 0xA6,
      0x0B, 0xAD, 0xBE, 0xCF, 0xD8, 0xE9, 0xFA, 0x0B, 0x14, 0x25, 0x36, 0x47, 0x50, 0x61,
      0x72, 0x83, 0x09, 0x09, 0x09, 0x09, 0x09, 0x09, 0x09, 0x09]"
  by (simp add: sample_tampered_def mpi_octets.simps)



lemma sample_unwrap_tampered:
  "gcry_cipher_decrypt sample_env 7 (take 16 (replicate 32 0x6D @ replicate 33 0))
     (length (tl (mpi_octets sample_tampered))) (tl (mpi_octets sample_tampered))
   = Inl GPG_ERR_CHECKSUM"
  by (simp add: sample_env_simps sample_unwrap_def sample_tampered_octets replicate_numeral)


lemma sample_decrypt_tampered:
  "pk_ecdh_decrypt sample_env sample_fp (Some sample_tampered) sample_shared sample_pkey =
     Inl (Returned GPG_ERR_CHECKSUM)"
  unfolding decrypt_from_kek [OF sample_ecdh_kek]
  by (rule aeswrap_data_decrypt_error [where b = "0x20" and W = "tl (mpi_octets sample_tampered)",
        OF _ _ _ _ _ _ sample_unwrap_tampered])
    (simp_all add: sample_env_simps sample_tampered_octets)

lemma sample_unwrap_wrapped:
  "gcry_cipher_decrypt sample_env 7 (take 16 (replicate 32 0x6D @ replicate 33 0))
     (length (tl (mpi_octets sample_wrapped))) (tl (mpi_octets sample_wrapped))
   = Inr (mpi_octets sample_data)"
  by (simp add: sample_env_simps sample_unwrap_def sample_wrapped_octets sample_mask_kek_list
      sample_data_octets replicate_numeral)

lemma sample_decrypt_wrapped:
  "pk_ecdh_decrypt sample_env sample_fp (Some sample_wrapped) sample_shared sample_pkey =
     Inr sample_data"
proof -
  have "aeswrap_data sample_env False 7 (replicate 32 0x6D @ replicate 33 0) 16 sample_wrapped =
          Inr (octets_value (mpi_octets sample_data))"
    by (rule aeswrap_data_decrypt_ok [where b = "0x20" and W = "tl (mpi_octets sample_wrapped)",
          OF _ _ _ _ _ _ sample_unwrap_wrapped])
      (simp_all add: sample_env_simps sample_wrapped_octets sample_data_octets)
  then show ?thesis
    by (simp only: decrypt_from_kek [OF sample_ecdh_kek] octets_value_mpi_octets)
qed



subsection \<open>The KEK-parameter blob and the key of the specification's example\<close>

lemma take_length_eq: "length (take n xs) = 4 \<Longrightarrow> 4 < n \<Longrightarrow> take n xs = xs"
  by (cases "length xs \<le> n") auto

lemma read_kek_params_blob:
  assumes "read_kek_params pkey = Inr (h, c)"
  shows "[of_nat (length (mpi_octets (pkey ! 2)))] @ mpi_octets (pkey ! 2) = [3, 1, of_nat h, of_nat c]"
proof -
  let ?blob = "[of_nat (length (mpi_octets (pkey ! 2))) :: byte] @ mpi_octets (pkey ! 2)"
  have r: "check_kek_params (take 256 ?blob) = Inr (h, c)"
    using assms
    by (simp add: read_kek_params_def iobuf_write_size_body_mpi_def iobuf_temp_to_buffer_def)
  then have l: "length (take 256 ?blob) = 4"
    unfolding check_kek_params_eq by (simp split: if_splits)
  then have t: "take 256 ?blob = ?blob" by (rule take_length_eq) simp
  from r have c: "check_kek_params ?blob = Inr (h, c)" by (simp only: t)
  from l t have l4: "length ?blob = 4" by simp
  then obtain b0 b1 b2 b3 where b: "?blob = [b0, b1, b2, b3]"
    by (cases ?blob; cases "tl ?blob"; cases "tl (tl ?blob)"; cases "tl (tl (tl ?blob))") auto
  from c have "b0 = 3 \<and> b1 = 1 \<and> h = unat b2 \<and> c = unat b3"
    unfolding b check_kek_params_eq by (simp split: if_splits del: insert_iff)
  then show ?thesis
    unfolding b by simp
qed

lemma spec_pkey_octets:
  "mpi_octets (spec_pkey ! 0) = [0x2A, 0x86, 0x48, 0xCE, 0x3D, 0x03, 0x01, 0x07]"
  "mpi_octets (spec_pkey ! 2) = [3, 1, 8, 7]"
  "spec_pkey ! 1 = sample_pkey ! 1"
  by (simp_all add: spec_pkey_def sample_pkey_def mpi_octets.simps)

lemma extract_secret_x_point_only:
  "pkey ! 1 = pkey' ! 1 \<Longrightarrow>
     extract_secret_x e nbits pkey shared = extract_secret_x e nbits pkey' shared"
  by (simp add: extract_secret_x_def)

lemma spec_pkey_rejected:
  "pk_ecdh_encrypt_with_shared_point sample_env is_encrypt sample_shared sample_fp data spec_pkey =
     Inl (Returned GPG_ERR_BAD_PUBKEY)"
proof -
  have x: "extract_secret_x sample_env 256 spec_pkey sample_shared =
      Inr (take 32 (drop 1 (mpi_octets sample_shared)) @ replicate 33 0, 32)"
    using extract_secret_x_point_only [OF spec_pkey_octets(3)] sample_extract by simp
  have r: "read_kek_params spec_pkey = Inl (Returned GPG_ERR_BAD_PUBKEY)"
    by (simp add: read_kek_params_def iobuf_write_size_body_mpi_def iobuf_temp_to_buffer_def
        spec_pkey_octets check_kek_params_eq)
  have "ecdh_kek sample_env sample_shared sample_fp spec_pkey = Inl (Returned GPG_ERR_BAD_PUBKEY)"
    unfolding ecdh_kek_def Let_def
    by (simp only: sample_env_simps x r sum.case prod.case)
  then show ?thesis by (simp add: pk_ecdh_encrypt_with_shared_point_def)
qed

section \<open>The claims\<close>

subsection \<open>Round trip of wrap and unwrap\<close>

text \<open>
  Claim C1, amended. Let the key derivation succeed, the cipher open and take the key, and
  the two buffers be allocated. Let the padded session key be an MPI of \<open>L\<close> octets, \<open>L\<close> a
  multiple of 8 with \<open>L + 8 \<le> 255\<close>, so that the length octet can hold \<open>L + 8\<close>. If AESWRAP
  gives \<open>L + 8\<close> octets \<open>W\<close> for it and the AESWRAP unwrap of \<open>W\<close> under the same key gives its
  octets back, then wrapping returns an MPI, and unwrapping that MPI with the same shared
  point, key and fingerprint returns the session key.
\<close>

theorem unwrap_wrap_roundtrip:
  assumes kek: "ecdh_kek e shared_mpi pk_fp pkey = Inr (algo, sx, k)"
    and op: "gcry_cipher_open e algo = None"
    and sk: "gcry_cipher_setkey e algo (take k sx) = None"
    and L: "L = length (mpi_octets data)"
    and L8: "L mod 8 = 0"
    and Lmax: "L + 8 \<le> 255"
    and al_enc: "xtrymalloc e (1 + 2 * L + 8)"
    and al_dec: "xtrymalloc e (1 + 2 * (L + 9) + 8)"
    and enc: "gcry_cipher_encrypt e algo (take k sx) (L + 8) (mpi_octets data) = Inr W"
    and lw: "length W = L + 8"
    and dec: "gcry_cipher_decrypt e algo (take k sx) (L + 8) W = Inr (mpi_octets data)"
  shows "\<exists>w. pk_ecdh_encrypt_with_shared_point e True shared_mpi pk_fp data pkey = Inr w
           \<and> pk_ecdh_encrypt_with_shared_point e False shared_mpi pk_fp w pkey = Inr data"
proof -
  let ?b = "of_nat (L + 8) :: byte"
  let ?w = "octets_value (?b # W)"
  have m: "(L + 8) mod 256 = L + 8" using Lmax by simp
  have "pk_ecdh_encrypt_with_shared_point e True shared_mpi pk_fp data pkey =
          Inr (octets_value (?b # take ((L + 8) mod 256) W))"
    by (simp only: full_from_kek [OF kek] aeswrap_data_encrypt_ok [OF op sk L L8 al_enc enc lw])
  then have w: "pk_ecdh_encrypt_with_shared_point e True shared_mpi pk_fp data pkey = Inr ?w"
    using lw by (simp only: m) simp
  have bz: "?b \<noteq> 0" using Lmax by (intro of_nat_byte_nonzero) simp_all
  have o: "mpi_octets ?w = ?b # W" using bz by (rule mpi_octets_octets_value)
  have ub: "unat ?b = length W" using Lmax lw by (simp only: unat_of_nat_byte)
  have w8: "length W mod 8 = 0" using lw L8 by presburger
  have al: "xtrymalloc e (1 + 2 * Suc (length W) + 8)"
    using al_dec lw by (simp add: add.commute)
  have dec': "gcry_cipher_decrypt e algo (take k sx) (length W) W = Inr (mpi_octets data)"
    using dec lw by simp
  have lp: "length (mpi_octets data) + 8 = length W" using L lw by simp
  have "aeswrap_data e False algo sx k ?w = Inr (octets_value (mpi_octets data))"
    by (rule aeswrap_data_decrypt_ok [OF op sk o ub w8 al dec' lp])
  then have "pk_ecdh_encrypt_with_shared_point e False shared_mpi pk_fp ?w pkey = Inr data"
    by (simp only: full_from_kek [OF kek] octets_value_mpi_octets)
  with w show ?thesis by blast
qed

text \<open>The theorem on the sample key and the sample session key of 24 octets.\<close>

theorem unwrap_wrap_roundtrip_witness:
  "length (mpi_octets sample_data) = 24
   \<and> pk_ecdh_encrypt_with_shared_point sample_env True sample_shared sample_fp sample_data
       sample_pkey = Inr sample_wrapped
   \<and> pk_ecdh_encrypt_with_shared_point sample_env False sample_shared sample_fp sample_wrapped
       sample_pkey = Inr sample_data"
proof -
  have L: "24 = length (mpi_octets sample_data)" by (simp add: sample_data_octets)
  from unwrap_wrap_roundtrip [OF sample_ecdh_kek _ _ L _ _ _ _ sample_wrap_call _
      sample_unwrap_call]
  obtain w where w: "pk_ecdh_encrypt_with_shared_point sample_env True sample_shared sample_fp
        sample_data sample_pkey = Inr w"
    and u: "pk_ecdh_encrypt_with_shared_point sample_env False sample_shared sample_fp w
        sample_pkey = Inr sample_data"
    by (auto simp add: sample_env_simps)
  from w have "w = sample_wrapped" by (simp add: sample_wrap_result)
  with w u L show ?thesis by simp
qed

text \<open>
  Without the bound on \<open>L\<close> the round trip fails. A session key of 248 octets, a multiple
  of 8 and at least 16: the length octet \<open>248 + 8\<close> is cut to 0, the MPI is scanned from one
  octet and is 0, and unwrapping 0 stops at the assertion on the size of the data.
\<close>

theorem roundtrip_long_key_counterexample:
  "length (mpi_octets sample_long_data) = 248
   \<and> pk_ecdh_encrypt_with_shared_point sample_env True sample_shared sample_fp sample_long_data
       sample_pkey = Inr 0
   \<and> pk_ecdh_encrypt_with_shared_point sample_env False sample_shared sample_fp 0
       sample_pkey = Inl Assert_Failed"
proof -
  let ?key = "take 16 (replicate 32 (0x6D::byte) @ replicate 33 0)"
  let ?W = "replicate 8 (0xA6::byte) @ map (\<lambda>b. b XOR sample_mask ?key) (mpi_octets sample_long_data)"
  have L: "248 = length (mpi_octets sample_long_data)"
    by (simp add: sample_long_data_length)
  have enc: "gcry_cipher_encrypt sample_env 7 ?key (248 + 8) (mpi_octets sample_long_data) = Inr ?W"
    by (rule sample_wrap_long) (rule sample_long_data_length)
  have "aeswrap_data sample_env True 7 (replicate 32 0x6D @ replicate 33 0) 16 sample_long_data =
          Inr (octets_value (of_nat (248 + 8) # take ((248 + 8) mod 256) ?W))"
    by (rule aeswrap_data_encrypt_ok [OF _ _ L _ _ enc])
      (simp_all add: sample_env_simps sample_long_data_length)
  then have "pk_ecdh_encrypt_with_shared_point sample_env True sample_shared sample_fp
      sample_long_data sample_pkey = Inr 0"
    by (simp add: full_from_kek [OF sample_ecdh_kek] octets_value_def)
  then show ?thesis
    by (simp add: sample_long_data_length sample_zero_unwrap)
qed

subsection \<open>The KDF parameters\<close>

text \<open>
  Claim C2, amended. Let the fingerprint have 20 octets and let the octets of the OID MPI
  and of the KEK-parameter MPI be at most 213 together, so that the string fits the array of
  256 octets. Then the KDF parameters are: one octet with the length of the OID and the OID
  octets, the octet \<^verbatim>\<open>12\<close>, one octet with the length of the KEK parameters and their octets,
  the 20 octets of \<^verbatim>\<open>Anonymous Sender\<close> followed by four spaces, and the fingerprint. Both length
  octets hold the lengths exactly. For a key that passed the check of the KEK parameters,
  the third field is the four octets \<^verbatim>\<open>03 01 hash cipher\<close>.
\<close>

theorem kdf_params_layout:
  assumes fp: "length pk_fp = 20"
    and fit: "length (mpi_octets (pkey ! 0)) + length (mpi_octets (pkey ! 2)) \<le> 213"
  shows "build_kdf_params pkey pk_fp =
           Inr ([of_nat (length (mpi_octets (pkey ! 0)))] @ mpi_octets (pkey ! 0)
                @ [0x12]
                @ [of_nat (length (mpi_octets (pkey ! 2)))] @ mpi_octets (pkey ! 2)
                @ map of_char ''Anonymous Sender    ''
                @ pk_fp)
       \<and> unat (of_nat (length (mpi_octets (pkey ! 0))) :: byte) = length (mpi_octets (pkey ! 0))
       \<and> unat (of_nat (length (mpi_octets (pkey ! 2))) :: byte) = length (mpi_octets (pkey ! 2))
       \<and> (\<forall>h c. read_kek_params pkey = Inr (h, c) \<longrightarrow>
              [of_nat (length (mpi_octets (pkey ! 2)))] @ mpi_octets (pkey ! 2)
                = [3, 1, of_nat h, of_nat c])"
proof (intro conjI allI impI)
  show "build_kdf_params pkey pk_fp =
          Inr ([of_nat (length (mpi_octets (pkey ! 0)))] @ mpi_octets (pkey ! 0)
               @ [0x12]
               @ [of_nat (length (mpi_octets (pkey ! 2)))] @ mpi_octets (pkey ! 2)
               @ map of_char ''Anonymous Sender    ''
               @ pk_fp)"
    using fp fit
    by (simp add: build_kdf_params_def iobuf_write_size_body_mpi_def iobuf_put_def
        iobuf_write_def iobuf_temp_to_buffer_def)
  show "unat (of_nat (length (mpi_octets (pkey ! 0))) :: byte) = length (mpi_octets (pkey ! 0))"
    using fit by (intro unat_of_nat_byte) simp
  show "unat (of_nat (length (mpi_octets (pkey ! 2))) :: byte) = length (mpi_octets (pkey ! 2))"
    using fit by (intro unat_of_nat_byte) simp
next
  fix h c
  assume "read_kek_params pkey = Inr (h, c)"
  then show "[of_nat (length (mpi_octets (pkey ! 2)))] @ mpi_octets (pkey ! 2)
      = [3, 1, of_nat h, of_nat c]"
    by (rule read_kek_params_blob)
qed

text \<open>
  The theorem on the sample key: P-256, the blob \<^verbatim>\<open>03 01 08 07\<close>, a zero fingerprint. The
  result has 54 octets.
\<close>

theorem kdf_params_layout_witness:
  "length sample_fp = 20
   \<and> read_kek_params sample_pkey = Inr (8, 7)
   \<and> build_kdf_params sample_pkey sample_fp =
       Inr [0x08, 0x2A, 0x86, 0x48, 0xCE, 0x3D, 0x03, 0x01, 0x07,
            0x12,
            0x03, 0x01, 0x08, 0x07,
            0x41, 0x6E, 0x6F, 0x6E, 0x79, 0x6D, 0x6F, 0x75, 0x73, 0x20,
            0x53, 0x65, 0x6E, 0x64, 0x65, 0x72, 0x20, 0x20, 0x20, 0x20,
            0, 0, 0, 0, 0, 0, 0, 0, 0, 0, 0, 0, 0, 0, 0, 0, 0, 0, 0, 0]"
proof -
  have fp: "length sample_fp = 20" by (simp add: sample_fp_def)
  have fit: "length (mpi_octets (sample_pkey ! 0)) + length (mpi_octets (sample_pkey ! 2)) \<le> 213"
    by (simp add: sample_oid_octets sample_kek_octets)
  from kdf_params_layout [OF fp fit, THEN conjunct1]
  have "build_kdf_params sample_pkey sample_fp =
       Inr [0x08, 0x2A, 0x86, 0x48, 0xCE, 0x3D, 0x03, 0x01, 0x07,
            0x12,
            0x03, 0x01, 0x08, 0x07,
            0x41, 0x6E, 0x6F, 0x6E, 0x79, 0x6D, 0x6F, 0x75, 0x73, 0x20,
            0x53, 0x65, 0x6E, 0x64, 0x65, 0x72, 0x20, 0x20, 0x20, 0x20,
            0, 0, 0, 0, 0, 0, 0, 0, 0, 0, 0, 0, 0, 0, 0, 0, 0, 0, 0, 0]"
    by (simp add: sample_oid_octets sample_kek_octets sample_fp_def replicate_numeral)
  with fp sample_read_kek show ?thesis by simp
qed

text \<open>
  The vector printed in the specification has 55 octets, with \<^verbatim>\<open>04 03 01 08 07\<close> as third
  field. The block assembles it for the key whose KEK-parameter MPI is \<^verbatim>\<open>03 01 08 07\<close>, and
  that key never gets there: the check before the block rejects it with
  \<^verbatim>\<open>GPG_ERR_BAD_PUBKEY\<close>. For the key that has the blob \<^verbatim>\<open>03 01 08 07\<close> the result has 54
  octets and differs from the printed vector.
\<close>

theorem kdf_vector_counterexample:
  "length spec_kdf_vector = 55
   \<and> mpi_octets (spec_pkey ! 2) = [3, 1, 8, 7]
   \<and> build_kdf_params spec_pkey sample_fp = Inr spec_kdf_vector
   \<and> pk_ecdh_encrypt_with_shared_point sample_env True sample_shared sample_fp sample_data
       spec_pkey = Inl (Returned GPG_ERR_BAD_PUBKEY)
   \<and> mpi_octets (sample_pkey ! 2) = [1, 8, 7]
   \<and> (\<exists>v. build_kdf_params sample_pkey sample_fp = Inr v \<and> length v = 54
          \<and> v \<noteq> spec_kdf_vector)"
proof -
  have 1: "length spec_kdf_vector = 55" by (simp add: spec_kdf_vector_def)
  have 2: "build_kdf_params spec_pkey sample_fp = Inr spec_kdf_vector"
    by (simp add: build_kdf_params_def iobuf_write_size_body_mpi_def iobuf_put_def
        iobuf_write_def iobuf_temp_to_buffer_def spec_pkey_octets sample_fp_def
        replicate_numeral spec_kdf_vector_def)
  have 3: "\<exists>v. build_kdf_params sample_pkey sample_fp = Inr v \<and> length v = 54
      \<and> v \<noteq> spec_kdf_vector"
    unfolding sample_kdf_params by (simp add: spec_kdf_vector_def)
  from 1 2 3 show ?thesis
    by (simp add: spec_pkey_octets sample_kek_octets spec_pkey_rejected)
qed

subsection \<open>Default KEK parameters\<close>

text \<open>
  Claim C3. When the allocation of the four octets succeeds, \<^verbatim>\<open>pk_ecdh_default_params\<close>
  returns, for every \<open>qbits\<close>, the blob \<^verbatim>\<open>03 01 hash cipher\<close> of the first table row whose
  threshold is at least \<open>qbits\<close>, or of the last row when there is none: 256 gives
  SHA-256 with AES-128, 384 gives SHA-384 with AES-256, 521 and 1024 give SHA-512 with
  AES-256.
\<close>

theorem pk_ecdh_default_params_selection:
  assumes "xtrymalloc e 4"
  shows "pk_ecdh_default_params e qbits =
           Inr [3, 1, of_nat (fst (snd (first_matching_row qbits))),
                      of_nat (snd (snd (first_matching_row qbits)))]
       \<and> pk_ecdh_default_params e 256 = Inr [3, 1, 8, 7]
       \<and> pk_ecdh_default_params e 384 = Inr [3, 1, 9, 9]
       \<and> pk_ecdh_default_params e 521 = Inr [3, 1, 10, 9]
       \<and> pk_ecdh_default_params e 1024 = Inr [3, 1, 10, 9]"
proof -
  have "xtrymalloc e (Suc (Suc (Suc (Suc 0))))"
    using assms by (simp add: eval_nat_numeral)
  then show ?thesis
    by (simp add: pk_ecdh_default_params_def kek_params_loop_0 first_matching_row_eq)
qed

text \<open>The theorem at \<open>qbits = 300\<close>, in the sample environment.\<close>

theorem pk_ecdh_default_params_selection_witness:
  "xtrymalloc sample_env 4
   \<and> first_matching_row 300 = (384, 9, 9)
   \<and> pk_ecdh_default_params sample_env 300 = Inr [3, 1, 9, 9]
   \<and> pk_ecdh_default_params sample_env 521 = Inr [3, 1, 10, 9]"
proof -
  have a: "xtrymalloc sample_env 4" by (simp add: sample_env_simps)
  have r: "first_matching_row 300 = (384, 9, 9)" by (simp add: first_matching_row_eq)
  show ?thesis
    using a r pk_ecdh_default_params_selection [OF a, of 300] by simp
qed

subsection \<open>The check of the KEK parameters\<close>

text \<open>
  Claim C4. The check of lines 160--179 fails with \<^verbatim>\<open>GPG_ERR_BAD_PUBKEY\<close> exactly when the
  blob does not have four octets, or octet 0 is not 3, or octet 1 is not 1, or the hash id is
  none of SHA-256, SHA-384, SHA-512, or the cipher id is none of AES-128, AES-192, AES-256.
  It fails with no other code, a blob it accepts gives octets 2 and 3 as the hash and cipher
  ids, and the blob \<^verbatim>\<open>04 01 08 07\<close> is rejected.
\<close>

theorem check_kek_params_rejects:
  "(check_kek_params blob = Inl (Returned GPG_ERR_BAD_PUBKEY)) =
     (length blob \<noteq> 4 \<or> blob ! 0 \<noteq> 3 \<or> blob ! 1 \<noteq> 1
      \<or> unat (blob ! 2) \<notin> {GCRY_MD_SHA256, GCRY_MD_SHA384, GCRY_MD_SHA512}
      \<or> unat (blob ! 3) \<notin> {GCRY_CIPHER_AES128, GCRY_CIPHER_AES192, GCRY_CIPHER_AES256})
   \<and> (\<forall>f. check_kek_params blob = Inl f \<longrightarrow> f = Returned GPG_ERR_BAD_PUBKEY)
   \<and> (\<forall>r. check_kek_params blob = Inr r \<longrightarrow> r = (unat (blob ! 2), unat (blob ! 3)))
   \<and> check_kek_params [4, 1, 8, 7] = Inl (Returned GPG_ERR_BAD_PUBKEY)"
  unfolding check_kek_params_eq [of blob] check_kek_params_eq [of "[4, 1, 8, 7]"]
  by auto

text \<open>The theorem at the blobs \<^verbatim>\<open>03 01 08 07\<close> (accepted) and \<^verbatim>\<open>03 01 02 07\<close> (SHA-1, rejected).\<close>

theorem check_kek_params_rejects_witness:
  "check_kek_params [3, 1, 8, 7] = Inr (8, 7)
   \<and> check_kek_params [3, 1, 8, 7] \<noteq> Inl (Returned GPG_ERR_BAD_PUBKEY)
   \<and> check_kek_params [3, 1, 2, 7] = Inl (Returned GPG_ERR_BAD_PUBKEY)"
proof -
  note t = check_kek_params_rejects [of "[3, 1, 8, 7]"]
  have 1: "check_kek_params [3, 1, 8, 7] \<noteq> Inl (Returned GPG_ERR_BAD_PUBKEY)"
    using t [THEN conjunct1] by simp
  have f: "\<And>f. check_kek_params [3, 1, 8, 7] = Inl f \<Longrightarrow> f = Returned GPG_ERR_BAD_PUBKEY"
    using t [THEN conjunct2, THEN conjunct1] by blast
  have r: "\<And>r. check_kek_params [3, 1, 8, 7] = Inr r \<Longrightarrow> r = (8, 7)"
    using t [THEN conjunct2, THEN conjunct2, THEN conjunct1] by simp
  have 2: "check_kek_params [3, 1, 8, 7] = Inr (8, 7)"
  proof (cases "check_kek_params [3, 1, 8, 7]")
    case (Inl x)
    with f [OF Inl] 1 show ?thesis by simp
  next
    case (Inr x)
    with r [OF Inr] show ?thesis by simp
  qed
  have 3: "check_kek_params [3, 1, 2, 7] = Inl (Returned GPG_ERR_BAD_PUBKEY)"
    using check_kek_params_rejects [of "[3, 1, 2, 7]", THEN conjunct1] by simp
  from 1 2 3 show ?thesis by simp
qed

subsection \<open>The shared secret\<close>

text \<open>
  Claim C5, amended. Let the curve size be at most \<open>2^31 - 8\<close> bits, so that the \<^verbatim>\<open>int\<close>
  arithmetic of the code gives \<open>n = (nbits + 7) div 8\<close>, and let the shared point have \<open>m\<close>
  octets with \<open>n < m\<close>. When the octets fit into the buffer, which is as long as the public
  point, the shared secret has \<open>n\<close> octets, they are the octets \<open>1, \<dots>, n\<close> of the shared
  point (the leading octet is skipped), and the buffer holds zero from position \<open>n\<close> up to
  position \<open>m\<close>, the extent of the exported octets; the octets behind position \<open>m\<close> are not
  written and keep what the allocation left there. When the public point has \<open>m\<close> octets
  too, as two points of one curve have, that is the whole buffer: the secret followed by
  zero. When the octets do not fit, the export fails and its error code is returned.
\<close>

theorem extract_secret_x_shared_secret:
  assumes m: "m = length (mpi_octets shared_mpi)"
    and q: "unat nbits \<le> 2147483640"
    and n: "n = (unat nbits + 7) div 8"
    and more: "n < m"
  shows "(m \<le> length (mpi_octets (pkey ! 1)) \<longrightarrow>
            extract_secret_x e nbits pkey shared_mpi =
              Inr (take n (drop 1 (mpi_octets shared_mpi))
                     @ replicate (m - n) 0
                     @ drop m (fresh_buffer e (length (mpi_octets (pkey ! 1)))), n)
            \<and> length (take n (drop 1 (mpi_octets shared_mpi))) = n)
       \<and> (length (mpi_octets (pkey ! 1)) = m \<longrightarrow>
            extract_secret_x e nbits pkey shared_mpi =
              Inr (take n (drop 1 (mpi_octets shared_mpi)) @ replicate (m - n) 0, n))
       \<and> (length (mpi_octets (pkey ! 1)) < m \<longrightarrow>
            extract_secret_x e nbits pkey shared_mpi = Inl (Returned GPG_ERR_TOO_SHORT))"
proof (intro conjI impI)
  assume fits: "m \<le> length (mpi_octets (pkey ! 1))"
  show "extract_secret_x e nbits pkey shared_mpi =
          Inr (take n (drop 1 (mpi_octets shared_mpi))
                 @ replicate (m - n) 0
                 @ drop m (fresh_buffer e (length (mpi_octets (pkey ! 1)))), n)"
    unfolding m n
    by (rule extract_secret_x_ok [OF _ q]) (use fits more m n in simp_all)
  show "length (take n (drop 1 (mpi_octets shared_mpi))) = n"
    using more m by simp
next
  assume same: "length (mpi_octets (pkey ! 1)) = m"
  have "extract_secret_x e nbits pkey shared_mpi =
          Inr (take n (drop 1 (mpi_octets shared_mpi))
                 @ replicate (m - n) 0
                 @ drop m (fresh_buffer e (length (mpi_octets (pkey ! 1)))), n)"
    unfolding m n
    by (rule extract_secret_x_ok [OF _ q]) (use same more m n in simp_all)
  then show "extract_secret_x e nbits pkey shared_mpi =
      Inr (take n (drop 1 (mpi_octets shared_mpi)) @ replicate (m - n) 0, n)"
    using same by (simp add: length_fresh_buffer)
next
  assume "length (mpi_octets (pkey ! 1)) < m"
  then show "extract_secret_x e nbits pkey shared_mpi = Inl (Returned GPG_ERR_TOO_SHORT)"
    unfolding m by (rule extract_secret_x_too_short)
qed

text \<open>
  The theorem on the sample key (65 octets, a 256-bit curve), and on a key whose public point
  has two octets only, so that the export fails.
\<close>

theorem extract_secret_x_shared_secret_witness:
  "(32::nat) < 65
   \<and> extract_secret_x sample_env 256 sample_pkey sample_shared =
       Inr ([0x7C, 0xF2, 0x7B, 0x18, 0x8D, 0x03, 0x4F, 0x7E, 0x8A, 0x52, 0x38, 0x03, 0x04, 0xB5,
             0x1A, 0xC3, 0xC0, 0x89, 0x69, 0xE2, 0x77, 0xF2, 0x1B, 0x35, 0xA6, 0x0B, 0x48, 0xFC,
             0x47, 0x66, 0x99, 0x78] @ replicate 33 0, 32)
   \<and> extract_secret_x sample_env 256 [0, 0x0401, 0] sample_shared =
       Inl (Returned GPG_ERR_TOO_SHORT)"
proof -
  have m: "65 = length (mpi_octets sample_shared)" by (simp add: sample_shared_octets)
  have q: "unat (256 :: 32 word) \<le> 2147483640" by simp
  have n: "32 = (unat (256 :: 32 word) + 7) div 8" by simp
  have s': "length (mpi_octets 0x0401) = 2" by (simp add: mpi_octets.simps)
  show ?thesis
    using extract_secret_x_shared_secret [OF m q n, of sample_pkey sample_env]
      extract_secret_x_shared_secret [OF m q n, of "[0, 0x0401, 0]" sample_env]
    by (simp add: sample_point_length_Suc s' sample_shared_octets length_fresh_buffer)
qed

text \<open>
  A shared point shorter than the public point: the public point has three octets, the
  shared point the two octets \<^verbatim>\<open>04 07\<close>, and the curve has 8 bits, so \<open>n = 1 < m = 2\<close>. The
  secret is the octet \<^verbatim>\<open>07\<close> and position 1 is set to zero, but position 2 of the buffer, which
  lies past position \<open>n\<close>, keeps the octet \<^verbatim>\<open>AA\<close> that the allocation left there.
\<close>

theorem buffer_tail_counterexample:
  "mpi_octets 0x0407 = [0x04, 0x07]
   \<and> length (mpi_octets 0x040000) = 3
   \<and> extract_secret_x sample_env 8 [0, 0x040000, 0] 0x0407 = Inr ([0x07, 0x00, 0xAA], 1)
   \<and> [0x07, 0x00, 0xAA :: byte] ! 2 \<noteq> 0"
proof -
  have o: "mpi_octets 0x0407 = [0x04, 0x07]" by (simp add: mpi_octets.simps)
  have p: "length (mpi_octets 0x040000) = 3" by (simp add: mpi_octets.simps)
  have p': "length (mpi_octets ([0, 0x040000, 0] ! 1)) = 3" using p by simp
  have q: "unat (8 :: 32 word) \<le> 2147483640" by simp
  have f: "fresh_buffer sample_env 3 = [0xAA, 0xAA, 0xAA]"
    by (simp add: fresh_buffer_def sample_env_simps eval_nat_numeral)
  have "extract_secret_x sample_env 8 [0, 0x040000, 0] 0x0407 =
          Inr (take ((unat (8 :: 32 word) + 7) div 8) (drop 1 (mpi_octets 0x0407))
                 @ replicate (length (mpi_octets 0x0407) - (unat (8 :: 32 word) + 7) div 8) 0
                 @ drop (length (mpi_octets 0x0407))
                     (fresh_buffer sample_env (length (mpi_octets ([0, 0x040000, 0] ! 1)))),
               (unat (8 :: 32 word) + 7) div 8)"
    by (rule extract_secret_x_ok [OF _ q]) (simp_all add: o p)
  then have "extract_secret_x sample_env 8 [0, 0x040000, 0] 0x0407 = Inr ([0x07, 0x00, 0xAA], 1)"
    by (simp only: p' o f) simp
  with o p show ?thesis by simp
qed

subsection \<open>The size checks of the unwrap\<close>




subsection \<open>A failed unwrap\<close>

text \<open>
  Claim C7, amended. Let the key derivation succeed, the cipher open and take the key, the
  buffer be allocated, and the data MPI be a length octet followed by that many octets \<open>W\<close>,
  a multiple of 8. If the cipher's decryption of \<open>W\<close> fails with the code \<open>rc\<close>, then
  \<^verbatim>\<open>pk_ecdh_decrypt\<close> returns \<open>rc\<close> itself; it returns \<^verbatim>\<open>GPG_ERR_BAD_KEY\<close> only if that is the
  code the cipher gave.
\<close>

theorem unwrap_failure_code_passed_through:
  assumes kek: "ecdh_kek e shared sk_fp skey = Inr (algo, sx, k)"
    and op: "gcry_cipher_open e algo = None"
    and sk: "gcry_cipher_setkey e algo (take k sx) = None"
    and oct: "mpi_octets data = b # W"
    and len: "unat b = length W"
    and l8: "length W mod 8 = 0"
    and al: "xtrymalloc e (1 + 2 * Suc (length W) + 8)"
    and dec: "gcry_cipher_decrypt e algo (take k sx) (length W) W = Inl rc"
  shows "pk_ecdh_decrypt e sk_fp (Some data) shared skey = Inl (Returned rc)
       \<and> (pk_ecdh_decrypt e sk_fp (Some data) shared skey = Inl (Returned GPG_ERR_BAD_KEY))
           = (rc = GPG_ERR_BAD_KEY)"
proof -
  have "pk_ecdh_decrypt e sk_fp (Some data) shared skey = Inl (Returned rc)"
    unfolding decrypt_from_kek [OF kek]
    by (rule aeswrap_data_decrypt_error [OF op sk oct len l8 al dec])
  then show ?thesis by auto
qed

text \<open>The theorem on the wrapped sample key with one bit flipped.\<close>

theorem unwrap_failure_code_passed_through_witness:
  "mpi_octets sample_tampered = 0x20 # tl (mpi_octets sample_tampered)
   \<and> length (tl (mpi_octets sample_tampered)) = 32
   \<and> pk_ecdh_decrypt sample_env sample_fp (Some sample_tampered) sample_shared sample_pkey =
       Inl (Returned GPG_ERR_CHECKSUM)
   \<and> pk_ecdh_decrypt sample_env sample_fp (Some sample_tampered) sample_shared sample_pkey \<noteq>
       Inl (Returned GPG_ERR_BAD_KEY)"
proof -
  have oct: "mpi_octets sample_tampered = 0x20 # tl (mpi_octets sample_tampered)"
    by (simp add: sample_tampered_octets)
  have len: "length (tl (mpi_octets sample_tampered)) = 32"
    by (simp add: sample_tampered_octets)
  have ub: "unat (0x20 :: byte) = length (tl (mpi_octets sample_tampered))"
    using len by simp
  have l8: "length (tl (mpi_octets sample_tampered)) mod 8 = 0"
    using len by simp
  have al: "xtrymalloc sample_env (1 + 2 * Suc (length (tl (mpi_octets sample_tampered))) + 8)"
    by (simp add: sample_env_simps)
  have op: "gcry_cipher_open sample_env 7 = None" by (simp add: sample_env_simps)
  have sk: "gcry_cipher_setkey sample_env 7 (take 16 (replicate 32 0x6D @ replicate 33 0)) = None"
    by (simp add: sample_env_simps)
  from unwrap_failure_code_passed_through
    [OF sample_ecdh_kek op sk oct ub l8 al sample_unwrap_tampered]
  show ?thesis using oct len by simp
qed

text \<open>
  A validly wrapped key unwraps; with the lowest bit of its first wrapped octet flipped,
  the unwrap returns the cipher's \<^verbatim>\<open>GPG_ERR_CHECKSUM\<close>, not \<^verbatim>\<open>GPG_ERR_BAD_KEY\<close>.
\<close>

theorem tampered_wrap_counterexample:
  "pk_ecdh_decrypt sample_env sample_fp (Some sample_wrapped) sample_shared sample_pkey =
     Inr sample_data
   \<and> sample_tampered = sample_wrapped + 2 ^ 248
   \<and> pk_ecdh_decrypt sample_env sample_fp (Some sample_tampered) sample_shared sample_pkey =
       Inl (Returned GPG_ERR_CHECKSUM)
   \<and> Returned GPG_ERR_CHECKSUM \<noteq> Returned GPG_ERR_BAD_KEY"
proof -
  have "sample_tampered = sample_wrapped + 2 ^ 248"
    by (simp add: sample_tampered_def sample_wrapped_def)
  then show ?thesis
    using sample_decrypt_wrapped sample_decrypt_tampered by simp
qed

subsection \<open>The wrapped key\<close>

text \<open>
  Claim C8, amended. Let the key derivation succeed, the cipher open and take the key, and
  the buffer be allocated. For a padded session key of \<open>L\<close> octets, \<open>L\<close> a multiple of 8 with
  \<open>L + 8 \<le> 255\<close>, for which AESWRAP gives \<open>L + 8\<close> octets \<open>W\<close>, the function returns the MPI
  whose octets are the length octet \<open>L + 8\<close> followed by \<open>W\<close>, \<open>L + 9\<close> octets in all. Its bit
  length is \<open>8 * (L + 8)\<close> plus the bit length of the number \<open>L + 8\<close>; it equals
  \<open>8 + 8 * (L + 8)\<close> exactly when \<open>L + 8 \<ge> 128\<close>.
\<close>

theorem wrap_result_octets:
  assumes kek: "ecdh_kek e shared_mpi pk_fp pkey = Inr (algo, sx, k)"
    and op: "gcry_cipher_open e algo = None"
    and sk: "gcry_cipher_setkey e algo (take k sx) = None"
    and L: "L = length (mpi_octets data)"
    and L8: "L mod 8 = 0"
    and Lmax: "L + 8 \<le> 255"
    and al: "xtrymalloc e (1 + 2 * L + 8)"
    and enc: "gcry_cipher_encrypt e algo (take k sx) (L + 8) (mpi_octets data) = Inr W"
    and lw: "length W = L + 8"
  shows "\<exists>r. pk_ecdh_encrypt_with_shared_point e True shared_mpi pk_fp data pkey = Inr r
           \<and> mpi_octets r = of_nat (L + 8) # W
           \<and> length (mpi_octets r) = L + 9
           \<and> mpi_get_nbits r = 8 * (L + 8) + mpi_get_nbits (L + 8)
           \<and> (mpi_get_nbits r = 8 + 8 * (L + 8)) = (128 \<le> L + 8)"
proof -
  let ?b = "of_nat (L + 8) :: byte"
  let ?r = "octets_value (?b # W)"
  have m: "(L + 8) mod 256 = L + 8" using Lmax by simp
  have "pk_ecdh_encrypt_with_shared_point e True shared_mpi pk_fp data pkey =
          Inr (octets_value (?b # take ((L + 8) mod 256) W))"
    by (simp only: full_from_kek [OF kek] aeswrap_data_encrypt_ok [OF op sk L L8 al enc lw])
  then have r: "pk_ecdh_encrypt_with_shared_point e True shared_mpi pk_fp data pkey = Inr ?r"
    using lw by (simp only: m) simp
  have bz: "?b \<noteq> 0" using Lmax by (intro of_nat_byte_nonzero) simp_all
  have o: "mpi_octets ?r = ?b # W" using bz by (rule mpi_octets_octets_value)
  have ub: "unat ?b = L + 8" using Lmax by (rule unat_of_nat_byte)
  have nb: "mpi_get_nbits ?r = 8 * (L + 8) + mpi_get_nbits (L + 8)"
    using nbits_octets [OF bz, of W] by (simp only: ub lw)
  have top: "(mpi_get_nbits (L + 8) = 8) = (128 \<le> L + 8)"
    using Lmax by (rule nbits_byte_top)
  have "(mpi_get_nbits ?r = 8 + 8 * (L + 8)) = (128 \<le> L + 8)"
    unfolding nb top [symmetric] by auto
  then show ?thesis using r o nb lw by simp
qed

text \<open>The theorem on the sample session key of 24 octets: 33 octets, 262 bits.\<close>

theorem wrap_result_octets_witness:
  "pk_ecdh_encrypt_with_shared_point sample_env True sample_shared sample_fp sample_data
     sample_pkey = Inr sample_wrapped
   \<and> length (mpi_octets sample_wrapped) = 24 + 9
   \<and> mpi_get_nbits sample_wrapped = 8 * (24 + 8) + 6"
proof -
  have L: "24 = length (mpi_octets sample_data)" by (simp add: sample_data_octets)
  have n: "mpi_get_nbits (24 + 8) = 6" by (simp add: mpi_get_nbits.simps)
  from wrap_result_octets [OF sample_ecdh_kek _ _ L _ _ _ sample_wrap_call]
  obtain r where r: "pk_ecdh_encrypt_with_shared_point sample_env True sample_shared sample_fp
        sample_data sample_pkey = Inr r"
    and len: "length (mpi_octets r) = 24 + 9"
    and nb: "mpi_get_nbits r = 8 * (24 + 8) + mpi_get_nbits (24 + 8)"
    by (auto simp add: sample_env_simps)
  from r have "r = sample_wrapped" by (simp add: sample_wrap_result)
  with r len nb n show ?thesis by simp
qed

text \<open>
  For the session key of 24 octets the MPI has 262 bits, not \<open>8 + 8 * (24 + 8) = 264\<close>: the
  length octet \<^verbatim>\<open>20\<close> has two leading zero bits.
\<close>

theorem wrap_bit_length_counterexample:
  "pk_ecdh_encrypt_with_shared_point sample_env True sample_shared sample_fp sample_data
     sample_pkey = Inr sample_wrapped
   \<and> length (mpi_octets sample_data) = 24
   \<and> mpi_get_nbits sample_wrapped = 262
   \<and> mpi_get_nbits sample_wrapped \<noteq> 8 + 8 * (24 + 8)"
  by (simp add: sample_wrap_result sample_wrapped_nbits sample_data_octets)

subsection \<open>The buffer after the key derivation\<close>

text \<open>
  Claim C9 says that after the KDF step the buffer holds the first \<open>k\<close> octets of the digest
  and zero behind them. The last \<^verbatim>\<open>memset\<close> of the block has its fill value and its count
  exchanged and writes nothing. On the sample key, with SHA-256 and AES-128, \<open>k\<close> is 16: the
  first 16 octets are those of the digest, but so are the octets at the positions 16 to 31;
  zero starts at position 32, behind the digest.
\<close>

theorem kek_tail_not_cleared:
  "ecdh_kek sample_env sample_shared sample_fp sample_pkey =
     Inr (7, replicate 32 0x6D @ replicate 33 0, 16)
   \<and> gcry_md_digest sample_env 8
       ([0, 0, 0, 1] @ take 32 (drop 1 (mpi_octets sample_shared)) @
        [0x08, 0x2A, 0x86, 0x48, 0xCE, 0x3D, 0x03, 0x01, 0x07,
         0x12,
         0x03, 0x01, 0x08, 0x07,
         0x41, 0x6E, 0x6F, 0x6E, 0x79, 0x6D, 0x6F, 0x75, 0x73, 0x20,
         0x53, 0x65, 0x6E, 0x64, 0x65, 0x72, 0x20, 0x20, 0x20, 0x20,
         0, 0, 0, 0, 0, 0, 0, 0, 0, 0, 0, 0, 0, 0, 0, 0, 0, 0, 0, 0])
     = replicate 32 0x6D
   \<and> gcry_cipher_get_algo_keylen 7 = 16
   \<and> take 16 (replicate 32 (0x6D::byte) @ replicate 33 0) = replicate 16 0x6D
   \<and> (replicate 32 (0x6D::byte) @ replicate 33 0) ! 16 = 0x6D
   \<and> (replicate 32 (0x6D::byte) @ replicate 33 0) ! 31 = 0x6D
   \<and> (replicate 32 (0x6D::byte) @ replicate 33 0) ! 32 = 0"
proof -
  have "gcry_md_digest sample_env 8
       ([0, 0, 0, 1] @ take 32 (drop 1 (mpi_octets sample_shared)) @
        [0x08, 0x2A, 0x86, 0x48, 0xCE, 0x3D, 0x03, 0x01, 0x07,
         0x12,
         0x03, 0x01, 0x08, 0x07,
         0x41, 0x6E, 0x6F, 0x6E, 0x79, 0x6D, 0x6F, 0x75, 0x73, 0x20,
         0x53, 0x65, 0x6E, 0x64, 0x65, 0x72, 0x20, 0x20, 0x20, 0x20,
         0, 0, 0, 0, 0, 0, 0, 0, 0, 0, 0, 0, 0, 0, 0, 0, 0, 0, 0, 0])
     = replicate 32 0x6D"
    by (simp only: sample_env_simps sample_digest_value)
  then show ?thesis
    by (simp add: sample_ecdh_kek gcry_cipher_get_algo_keylen_def nth_append)
qed

subsection \<open>A null data argument\<close>

text \<open>
  Claim C10. \<^verbatim>\<open>pk_ecdh_decrypt\<close> called with a null \<^verbatim>\<open>data\<close> returns \<^verbatim>\<open>GPG_ERR_BAD_MPI\<close>,
  whatever the environment, the fingerprint, the shared point and the key are: nothing of
  the environment is consulted, and there is no result MPI.
\<close>

theorem pk_ecdh_decrypt_null_data:
  "pk_ecdh_decrypt e sk_fp None shared skey = Inl (Returned GPG_ERR_BAD_MPI)"
  by (simp add: pk_ecdh_decrypt_def)

end
